theory Spec2Isabelle
  imports Main
begin

section \<open>Python values\<close>

text \<open>
  The values that reach the \<open>state\<close> and \<open>user_data\<close> parameters of \<open>wimp.py\<close>:
  \<open>None\<close> (the sentinel of a control under construction, and an absent \<open>user_data\<close>),
  the booleans, and strings (\<open>'mixed'\<close>, \<open>"first True"\<close>, and every string that is not a
  state).  Equality of these values is Python's \<open>==\<close>, and for \<open>True\<close> also \<open>is\<close>.
  Numbers and unhashable objects are left out: the docstrings give \<open>True\<close>, \<open>False\<close>,
  \<open>'mixed'\<close> and \<open>"first True"\<close> as the states a caller passes.
\<close>

datatype pyval = PyNone | PyBool bool | PyStr string

text \<open>Python truth value, as tested by \<open>if cb._state:\<close> and \<open>not group\<close>.\<close>

fun truthy :: "pyval \<Rightarrow> bool" where
  "truthy PyNone = False"
| "truthy (PyBool b) = b"
| "truthy (PyStr s) = (s \<noteq> [])"

section \<open>Widgets and the object store\<close>

datatype klass = CheckBoxC | RadioButtonC

text \<open>
  A member of a \<open>Columns\<close> container: a shared icon, a fresh \<open>Text\<close>, or the control's own
  \<open>_label\<close> object (held by reference, so \<open>set_label\<close> is seen through it).
\<close>

datatype widget = SelectableIcon string | Text string | OwnLabel

record columns =
  widget_list :: "(nat option \<times> widget) list"
  dividechars :: nat
  focus_col :: "nat option"

text \<open>The class attributes \<open>states\<close> and \<open>reserve_columns\<close> of CheckBox and RadioButton.\<close>

definition states :: "klass \<Rightarrow> pyval \<rightharpoonup> widget" where
  "states k = (case k of
      CheckBoxC \<Rightarrow> [PyBool True \<mapsto> SelectableIcon ''[X]'',
                    PyBool False \<mapsto> SelectableIcon ''[ ]'',
                    PyStr ''mixed'' \<mapsto> SelectableIcon ''[#]'']
    | RadioButtonC \<Rightarrow> [PyBool True \<mapsto> SelectableIcon ''(X)'',
                    PyBool False \<mapsto> SelectableIcon ''( )'',
                    PyStr ''mixed'' \<mapsto> SelectableIcon ''(#)''])"

definition reserve_columns :: "klass \<Rightarrow> nat" where
  "reserve_columns k = 4"

text \<open>
  An instance of CheckBox or RadioButton.  \<open>c_group\<close> is the reference to the group list that
  \<open>RadioButton.__init__\<close> stores (a CheckBox has no such attribute); \<open>c_signals\<close> is the list
  of handlers connected to the instance's \<open>'change'\<close> signal, each with its user data
  (\<open>None\<close> when there is none).
\<close>

record control =
  c_class :: klass
  c_w :: "columns option"
  c_label :: string
  c_has_mixed :: bool
  c_state :: pyval
  c_group :: "nat option"
  c_signals :: "(string \<times> pyval) list"

text \<open>
  One call of a \<open>'change'\<close> handler: \<open>callee(emitter, new_state [, user_arg])\<close>.  A handler is
  an observer: \<open>seen_state\<close> is what \<open>emitter.get_state()\<close> returns while it runs.  Handlers
  are recorded, not run: what a handler may do to the controls (calling \<open>set_state\<close> from
  inside the callback) is outside this model.
\<close>

record call =
  callee :: string
  emitter :: nat
  new_state :: pyval
  user_arg :: pyval
  seen_state :: pyval

text \<open>
  The store: objects by reference, group lists by reference, the next fresh reference, and
  the handler calls made so far, oldest first.
\<close>

record world =
  heap :: "nat \<Rightarrow> control"
  groups :: "nat \<Rightarrow> nat list"
  next_id :: nat
  calls :: "call list"

datatype error = CheckBoxError nat pyval | AttributeError

definition upd :: "world \<Rightarrow> nat \<Rightarrow> (control \<Rightarrow> control) \<Rightarrow> world" where
  "upd wld self f = wld\<lparr>heap := (heap wld)(self := f (heap wld self))\<rparr>"

section \<open>Signals\<close>

text \<open>
  Modelled from the spec: \<open>connect_signal\<close> and \<open>Widget._emit\<close> are imported from modules
  that are not part of the sources at hand.  Section 4.1: connect "registers; never fails;
  duplicate registrations are permitted and independent"; emit "invokes every currently
  registered callback in registration order, passing emitter, *args, and that callback's
  bound user data (appended) if present".
\<close>

definition connect_signal :: "world \<Rightarrow> nat \<Rightarrow> string \<Rightarrow> pyval \<Rightarrow> world" where
  "connect_signal wld self callback user_data =
     upd wld self (\<lambda>c. c\<lparr>c_signals := c_signals c @ [(callback, user_data)]\<rparr>)"

definition emit_change :: "world \<Rightarrow> nat \<Rightarrow> pyval \<Rightarrow> world" where
  "emit_change wld self st =
     wld\<lparr>calls := calls wld @
        map (\<lambda>(callback, user_data).
               \<lparr>callee = callback, emitter = self, new_state = st,
                user_arg = user_data, seen_state = c_state (heap wld self)\<rparr>)
            (c_signals (heap wld self))\<rparr>"

section \<open>CheckBox\<close>

definition set_label :: "world \<Rightarrow> nat \<Rightarrow> string \<Rightarrow> world" where
  "set_label wld self label = upd wld self (\<lambda>c. c\<lparr>c_label := label\<rparr>)"

definition get_label :: "world \<Rightarrow> nat \<Rightarrow> string" where
  "get_label wld self = c_label (heap wld self)"

definition get_state :: "world \<Rightarrow> nat \<Rightarrow> pyval" where
  "get_state wld self = c_state (heap wld self)"

text \<open>
  \<open>CheckBox.set_state\<close>, lines 184 to 200.  A raise returns the store as it is at the raise.
\<close>

definition CheckBox_set_state ::
    "world \<Rightarrow> nat \<Rightarrow> pyval \<Rightarrow> bool \<Rightarrow> (error + unit) \<times> world" where
  "CheckBox_set_state wld self st do_callback =
     (if c_state (heap wld self) = st then (Inr (), wld)
      else case states (c_class (heap wld self)) st of
        None \<Rightarrow> (Inl (CheckBoxError self st), wld)
      | Some icon \<Rightarrow>
          let wld1 = (if do_callback \<and> c_state (heap wld self) \<noteq> PyNone
                      then emit_change wld self st else wld);
              wld2 = upd wld1 self (\<lambda>c. c\<lparr>c_state := st\<rparr>);
              wld3 = upd wld2 self (\<lambda>c. c\<lparr>c_w := Some
                       \<lparr>widget_list = [(Some (reserve_columns (c_class c)), icon),
                                       (None, OwnLabel)],
                        dividechars = 0, focus_col = Some 0\<rparr>\<rparr>)
          in (Inr (), wld3))"

text \<open>
  The property \<open>state = property(get_state, set_state)\<close>, line 205.  Its setter is the
  function \<open>CheckBox.set_state\<close>, taken when the body of class CheckBox runs; RadioButton
  inherits the property and does not build it again.  The assignment \<open>obj.state = v\<close>
  therefore runs \<open>CheckBox.set_state(obj, v)\<close>, whatever the class of \<open>obj\<close> is.
\<close>

definition assign_state :: "world \<Rightarrow> nat \<Rightarrow> pyval \<Rightarrow> (error + unit) \<times> world" where
  "assign_state wld self v = CheckBox_set_state wld self v True"

section \<open>RadioButton\<close>

text \<open>
  \<open>RadioButton.set_state\<close>, lines 335 to 349, and its loop over \<open>self.group\<close>.  The loop
  calls \<open>cb.set_state(False)\<close> on the class of \<open>cb\<close>; for a RadioButton that call comes
  back here with a state that is not \<open>True\<close>, and returns at line 343.
\<close>

function RadioButton_set_state ::
    "world \<Rightarrow> nat \<Rightarrow> pyval \<Rightarrow> bool \<Rightarrow> (error + unit) \<times> world"
  and RadioButton_clear_group ::
    "world \<Rightarrow> nat \<Rightarrow> nat list \<Rightarrow> (error + unit) \<times> world" where
  "RadioButton_set_state wld self st do_callback =
     (if c_state (heap wld self) = st then (Inr (), wld)
      else case CheckBox_set_state wld self st do_callback of
        (Inl e, wld1) \<Rightarrow> (Inl e, wld1)
      | (Inr u, wld1) \<Rightarrow>
          if st \<noteq> PyBool True then (Inr (), wld1)
          else (case c_group (heap wld1 self) of
            None \<Rightarrow> (Inl AttributeError, wld1)
          | Some g \<Rightarrow> RadioButton_clear_group wld1 self (groups wld1 g)))"
| "RadioButton_clear_group wld self [] = (Inr (), wld)"
| "RadioButton_clear_group wld self (cb # rest) =
     (if cb = self then RadioButton_clear_group wld self rest
      else if truthy (c_state (heap wld cb)) then
        (case (if c_class (heap wld cb) = RadioButtonC
               then RadioButton_set_state wld cb (PyBool False) True
               else CheckBox_set_state wld cb (PyBool False) True) of
           (Inl e, wld1) \<Rightarrow> (Inl e, wld1)
         | (Inr u, wld1) \<Rightarrow> RadioButton_clear_group wld1 self rest)
      else RadioButton_clear_group wld self rest)"
  by pat_completeness auto
termination
  by (relation "inv_image (less_than <*lex*> less_than)
        (\<lambda>x. case x of
           Inl (wld, self, st, d) \<Rightarrow> (if st = PyBool True then 2 else 0, 0)
         | Inr (wld, self, cs) \<Rightarrow> (Suc 0, length cs))") auto

declare RadioButton_set_state.simps [simp del]

text \<open>The method call \<open>self.set_state(state, do_callback)\<close>, resolved on the class of \<open>self\<close>.\<close>

definition set_state :: "world \<Rightarrow> nat \<Rightarrow> pyval \<Rightarrow> bool \<Rightarrow> (error + unit) \<times> world" where
  "set_state wld self st do_callback =
     (if c_class (heap wld self) = RadioButtonC
      then RadioButton_set_state wld self st do_callback
      else CheckBox_set_state wld self st do_callback)"

section \<open>Toggling, keys and the mouse\<close>

text \<open>
  \<open>CheckBox.toggle_state\<close>, lines 246 to 255.  The last line, \<open>self._invalidate()\<close>, drops
  a cached canvas, which is not part of the store.
\<close>

definition CheckBox_toggle_state :: "world \<Rightarrow> nat \<Rightarrow> (error + unit) \<times> world" where
  "CheckBox_toggle_state wld self =
     (if get_state wld self = PyBool False then set_state wld self (PyBool True) True
      else if get_state wld self = PyBool True then
        (if c_has_mixed (heap wld self) then set_state wld self (PyStr ''mixed'') True
         else set_state wld self (PyBool False) True)
      else if get_state wld self = PyStr ''mixed'' then set_state wld self (PyBool False) True
      else (Inr (), wld))"

definition RadioButton_toggle_state :: "world \<Rightarrow> nat \<Rightarrow> (error + unit) \<times> world" where
  "RadioButton_toggle_state wld self = set_state wld self (PyBool True) True"

definition toggle_state :: "world \<Rightarrow> nat \<Rightarrow> (error + unit) \<times> world" where
  "toggle_state wld self =
     (if c_class (heap wld self) = RadioButtonC
      then RadioButton_toggle_state wld self
      else CheckBox_toggle_state wld self)"

text \<open>
  \<open>CheckBox.keypress\<close> and \<open>CheckBox.mouse_event\<close>, inherited by RadioButton.  The table
  \<open>command_map\<close> and the classifier \<open>is_mouse_press\<close> are imported from modules that are not
  part of the sources at hand; they are parameters here.  \<open>keypress\<close> returns the key it did
  not handle, or \<open>None\<close>.
\<close>

definition keypress ::
    "(string \<Rightarrow> string option) \<Rightarrow> world \<Rightarrow> nat \<Rightarrow> nat \<Rightarrow> string
      \<Rightarrow> (error + string option) \<times> world" where
  "keypress command_map wld self sz key =
     (if command_map key \<noteq> Some ''activate'' then (Inr (Some key), wld)
      else case toggle_state wld self of
        (Inl e, wld1) \<Rightarrow> (Inl e, wld1)
      | (Inr u, wld1) \<Rightarrow> (Inr None, wld1))"

definition mouse_event ::
    "(string \<Rightarrow> bool) \<Rightarrow> world \<Rightarrow> nat \<Rightarrow> nat \<Rightarrow> string \<Rightarrow> int \<Rightarrow> int \<Rightarrow> int \<Rightarrow> bool
      \<Rightarrow> (error + bool) \<times> world" where
  "mouse_event is_mouse_press wld self sz event button x y focus =
     (if button \<noteq> 1 \<or> \<not> is_mouse_press event then (Inr False, wld)
      else case toggle_state wld self of
        (Inl e, wld1) \<Rightarrow> (Inl e, wld1)
      | (Inr u, wld1) \<Rightarrow> (Inr True, wld1))"

section \<open>Construction\<close>

text \<open>
  Creating an object takes the next fresh reference; \<open>__init__\<close> then runs on it.
  \<open>CheckBox.__init__\<close>, lines 102 to 111, runs for both classes, and its last line calls
  \<open>set_state\<close> of the class of the new object.
\<close>

definition alloc :: "world \<Rightarrow> klass \<Rightarrow> world" where
  "alloc wld k =
     wld\<lparr>heap := (heap wld)(next_id wld :=
             \<lparr>c_class = k, c_w = None, c_label = [], c_has_mixed = False,
              c_state = PyNone, c_group = None, c_signals = []\<rparr>),
         next_id := Suc (next_id wld)\<rparr>"

definition CheckBox_init ::
    "world \<Rightarrow> nat \<Rightarrow> string \<Rightarrow> pyval \<Rightarrow> bool \<Rightarrow> string option \<Rightarrow> pyval
      \<Rightarrow> (error + unit) \<times> world" where
  "CheckBox_init wld self label st has_mixed on_state_change user_data =
     (let wld1 = upd wld self (\<lambda>c. c\<lparr>c_w := None\<rparr>);
          wld2 = upd wld1 self (\<lambda>c. c\<lparr>c_label := []\<rparr>);
          wld3 = upd wld2 self (\<lambda>c. c\<lparr>c_has_mixed := has_mixed\<rparr>);
          wld4 = upd wld3 self (\<lambda>c. c\<lparr>c_state := PyNone\<rparr>);
          wld5 = (case on_state_change of
                    None \<Rightarrow> wld4
                  | Some callback \<Rightarrow> connect_signal wld4 self callback user_data);
          wld6 = set_label wld5 self label
      in set_state wld6 self st True)"

definition RadioButton_init ::
    "world \<Rightarrow> nat \<Rightarrow> nat \<Rightarrow> string \<Rightarrow> pyval \<Rightarrow> string option \<Rightarrow> pyval
      \<Rightarrow> (error + unit) \<times> world" where
  "RadioButton_init wld self g label st on_state_change user_data =
     (let st1 = (if st = PyStr ''first True'' then PyBool (groups wld g = []) else st);
          wld1 = upd wld self (\<lambda>c. c\<lparr>c_group := Some g\<rparr>)
      in case CheckBox_init wld1 self label st1 False on_state_change user_data of
        (Inl e, wld2) \<Rightarrow> (Inl e, wld2)
      | (Inr u, wld2) \<Rightarrow> (Inr (), wld2\<lparr>groups := (groups wld2)(g := groups wld2 g @ [self])\<rparr>))"

definition new_CheckBox ::
    "world \<Rightarrow> string \<Rightarrow> pyval \<Rightarrow> bool \<Rightarrow> string option \<Rightarrow> pyval \<Rightarrow> (error + nat) \<times> world" where
  "new_CheckBox wld label st has_mixed on_state_change user_data =
     (case CheckBox_init (alloc wld CheckBoxC) (next_id wld) label st has_mixed
             on_state_change user_data of
        (Inl e, wld1) \<Rightarrow> (Inl e, wld1)
      | (Inr u, wld1) \<Rightarrow> (Inr (next_id wld), wld1))"

definition new_RadioButton ::
    "world \<Rightarrow> nat \<Rightarrow> string \<Rightarrow> pyval \<Rightarrow> string option \<Rightarrow> pyval \<Rightarrow> (error + nat) \<times> world" where
  "new_RadioButton wld g label st on_state_change user_data =
     (case RadioButton_init (alloc wld RadioButtonC) (next_id wld) g label st
             on_state_change user_data of
        (Inl e, wld1) \<Rightarrow> (Inl e, wld1)
      | (Inr u, wld1) \<Rightarrow> (Inr (next_id wld), wld1))"

text \<open>The store before anything is created: no object, every group list empty, no call.\<close>

definition empty_control :: control where
  "empty_control = \<lparr>c_class = CheckBoxC, c_w = None, c_label = [], c_has_mixed = False,
                     c_state = PyNone, c_group = None, c_signals = []\<rparr>"

definition init_world :: world where
  "init_world = \<lparr>heap = (\<lambda>i. empty_control), groups = (\<lambda>g. []), next_id = 0, calls = []\<rparr>"

section \<open>Button\<close>

text \<open>
  A Button has no state that its handlers change, so it is a value.  One call of the
  \<open>on_press\<close> callback is recorded with the button it is given and with the arguments
  that follow the button: none, or the user data.
\<close>

record button =
  b_label :: string
  b_w :: "columns option"
  b_on_press :: "string option"
  b_user_data :: pyval

record press =
  p_callee :: string
  p_button :: button
  p_args :: "pyval list"

definition Button_set_label :: "button \<Rightarrow> string \<Rightarrow> button" where
  "Button_set_label b label =
     b\<lparr>b_label := label,
       b_w := Some \<lparr>widget_list = [(Some 1, Text ''<''), (None, Text label), (Some 1, Text ''>'')],
                    dividechars = 1, focus_col = None\<rparr>\<rparr>"

definition Button_init :: "string \<Rightarrow> string option \<Rightarrow> pyval \<Rightarrow> button" where
  "Button_init label on_press user_data =
     (Button_set_label \<lparr>b_label = [], b_w = None, b_on_press = None, b_user_data = PyNone\<rparr> label)
       \<lparr>b_on_press := on_press, b_user_data := user_data\<rparr>"

text \<open>\<open>Button.keypress\<close>, lines 423 to 430: the returned value and the calls made.\<close>

definition Button_keypress :: "button \<Rightarrow> nat \<Rightarrow> string \<Rightarrow> string option \<times> press list" where
  "Button_keypress b sz key =
     (if key \<notin> {'' '', ''enter''} then (Some key, [])
      else case b_on_press b of
        Some f \<Rightarrow>
          if b_user_data b = PyNone
          then (None, [\<lparr>p_callee = f, p_button = b, p_args = []\<rparr>])
          else (None, [\<lparr>p_callee = f, p_button = b, p_args = [b_user_data b]\<rparr>])
      | None \<Rightarrow> (None, []))"

text \<open>\<open>Button.mouse_event\<close>, lines 434 to 440.\<close>

definition Button_mouse_event ::
    "(string \<Rightarrow> bool) \<Rightarrow> button \<Rightarrow> nat \<Rightarrow> string \<Rightarrow> int \<Rightarrow> int \<Rightarrow> int \<Rightarrow> bool
      \<Rightarrow> bool \<times> press list" where
  "Button_mouse_event is_mouse_press b sz event btn x y focus =
     (if btn \<noteq> 1 \<or> \<not> is_mouse_press event then (False, [])
      else case b_on_press b of
        Some f \<Rightarrow> (True, [\<lparr>p_callee = f, p_button = b, p_args = []\<rparr>])
      | None \<Rightarrow> (False, []))"

section \<open>Programs over the store\<close>

text \<open>
  A client of the module makes calls one after the other: constructions, method calls and
  assignments to the property \<open>state\<close>.  A call names an object that has been created; a call that raises leaves the store as it is at the raise (the client may
  catch the exception and go on).
\<close>

datatype op =
    NewCheckBox string pyval bool "string option" pyval
  | NewRadioButton nat string pyval "string option" pyval
  | SetState nat pyval bool
  | AssignState nat pyval
  | ToggleState nat
  | SetLabel nat string
  | Keypress nat nat string
  | MouseEvent nat nat string int int int bool

fun exec_op :: "(string \<Rightarrow> string option) \<Rightarrow> (string \<Rightarrow> bool) \<Rightarrow> world \<Rightarrow> op \<Rightarrow> world" where
  "exec_op cm imp wld (NewCheckBox label st has_mixed cb ud) =
     snd (new_CheckBox wld label st has_mixed cb ud)"
| "exec_op cm imp wld (NewRadioButton g label st cb ud) =
     snd (new_RadioButton wld g label st cb ud)"
| "exec_op cm imp wld (SetState i st d) =
     (if i < next_id wld then snd (set_state wld i st d) else wld)"
| "exec_op cm imp wld (AssignState i v) =
     (if i < next_id wld then snd (assign_state wld i v) else wld)"
| "exec_op cm imp wld (ToggleState i) =
     (if i < next_id wld then snd (toggle_state wld i) else wld)"
| "exec_op cm imp wld (SetLabel i label) =
     (if i < next_id wld then set_label wld i label else wld)"
| "exec_op cm imp wld (Keypress i sz key) =
     (if i < next_id wld then snd (keypress cm wld i sz key) else wld)"
| "exec_op cm imp wld (MouseEvent i sz event btn x y focus) =
     (if i < next_id wld then snd (mouse_event imp wld i sz event btn x y focus) else wld)"

fun run :: "(string \<Rightarrow> string option) \<Rightarrow> (string \<Rightarrow> bool) \<Rightarrow> world \<Rightarrow> op list \<Rightarrow> world" where
  "run cm imp wld [] = wld"
| "run cm imp wld (x # xs) = run cm imp (exec_op cm imp wld x) xs"

section \<open>Auxiliary notions\<close>

text \<open>The group list of a RadioButton, empty for an object that has none.\<close>

definition members_of :: "world \<Rightarrow> nat \<Rightarrow> nat list" where
  "members_of w i = (case c_group (heap w i) of None \<Rightarrow> [] | Some g \<Rightarrow> groups w g)"

text \<open>A store with one CheckBox, built as \<open>CheckBox('x', False, False, f, 'u')\<close>.\<close>

definition cb0 :: world where
  "cb0 = snd (new_CheckBox init_world ''x'' (PyBool False) False (Some ''f'') (PyStr ''u''))"

text \<open>A classifier of mouse events for the examples: only \<open>'mouse press'\<close> is a press.\<close>

definition press_only :: "string \<Rightarrow> bool" where
  "press_only event = (event = ''mouse press'')"

text \<open>The store when \<open>CheckBox.__init__\<close> reaches its last line, the call of \<open>set_state\<close>.\<close>

definition prepared ::
    "world \<Rightarrow> nat \<Rightarrow> string \<Rightarrow> bool \<Rightarrow> string option \<Rightarrow> pyval \<Rightarrow> world" where
  "prepared wld self label has_mixed on_state_change user_data =
     upd wld self (\<lambda>c. c\<lparr>c_w := None, c_has_mixed := has_mixed, c_state := PyNone,
        c_signals := (case on_state_change of None \<Rightarrow> c_signals c
                      | Some callback \<Rightarrow> c_signals c @ [(callback, user_data)]),
        c_label := label\<rparr>)"

text \<open>Three radio buttons A, B, C created in this order in the empty group 0.\<close>

definition three_radios :: world where
  "three_radios =
     snd (new_RadioButton
       (snd (new_RadioButton
         (snd (new_RadioButton init_world 0 ''A'' (PyStr ''first True'') None PyNone))
         0 ''B'' (PyStr ''first True'') None PyNone))
       0 ''C'' (PyStr ''first True'') None PyNone)"

text \<open>
  A store with one CheckBox, built as \<open>CheckBox('x', 'mixed')\<close>: \<open>has_mixed\<close> is \<open>False\<close>.
\<close>

definition mixed0 :: world where
  "mixed0 = snd (new_CheckBox init_world ''x'' (PyStr ''mixed'') False None PyNone)"

text \<open>
  A store with one CheckBox, built as \<open>CheckBox('3-state', True, True)\<close>.
\<close>

definition tri0 :: world where
  "tri0 = snd (new_CheckBox init_world ''3-state'' (PyBool True) True None PyNone)"

text \<open>
  The state that \<open>toggle_state\<close> passes to \<open>set_state\<close>; the state itself where it makes no call.
\<close>

definition toggle_target :: "world \<Rightarrow> nat \<Rightarrow> pyval" where
  "toggle_target w i =
     (if c_class (heap w i) = RadioButtonC then PyBool True
      else if c_state (heap w i) = PyBool False then PyBool True
      else if c_state (heap w i) = PyBool True
           then (if c_has_mixed (heap w i) then PyStr ''mixed'' else PyBool False)
      else if c_state (heap w i) = PyStr ''mixed'' then PyBool False
      else c_state (heap w i))"

text \<open>
  The state that \<open>RadioButton.__init__\<close> passes on to \<open>CheckBox.__init__\<close>.
\<close>

definition first_True :: "world \<Rightarrow> nat \<Rightarrow> pyval \<Rightarrow> pyval" where
  "first_True w g st = (if st = PyStr ''first True'' then PyBool (groups w g = []) else st)"

text \<open>
  The invariant of the group lists: no member twice, every member a RadioButton that exists
  and refers to this list, and at most one member with state \<open>True\<close>.
\<close>

definition group_inv :: "world \<Rightarrow> bool" where
  "group_inv w \<longleftrightarrow>
     (\<forall>g. distinct (groups w g) \<and>
          (\<forall>c\<in>set (groups w g). c < next_id w \<and> c_class (heap w c) = RadioButtonC \<and>
                                  c_group (heap w c) = Some g) \<and>
          length (filter (\<lambda>c. c_state (heap w c) = PyBool True) (groups w g)) \<le> 1)"

text \<open>
  An object that exists, has no mixed state to cycle through, and is \<open>False\<close> or \<open>True\<close>.
\<close>

definition two_valued :: "world \<Rightarrow> nat \<Rightarrow> bool" where
  "two_valued w j \<longleftrightarrow> j < next_id w \<and> \<not> c_has_mixed (heap w j) \<and>
     (c_state (heap w j) = PyBool False \<or> c_state (heap w j) = PyBool True)"

text \<open>
  A command map for the examples: space and \<open>'enter'\<close> activate, as the doctest of
  \<open>CheckBox.keypress\<close> asserts; no other key is mapped.
\<close>

definition activate_keys :: "string \<Rightarrow> string option" where
  "activate_keys key = (if key = '' '' \<or> key = ''enter'' then Some ''activate'' else None)"

text \<open>
  A program on one CheckBox.
\<close>

definition box_ops :: "op list" where
  "box_ops = [ToggleState 0, Keypress 0 10 '' '', Keypress 0 10 ''x'',
              SetState 0 (PyBool True) False, SetState 0 (PyStr ''bogus'') True,
              AssignState 0 (PyBool False)]"

section \<open>Basic facts about set_state\<close>

lemma upd_simps [simp]:
  "heap (upd w i f) = (heap w)(i := f (heap w i))"
  "groups (upd w i f) = groups w"
  "next_id (upd w i f) = next_id w"
  "calls (upd w i f) = calls w"
  by (simp_all add: upd_def)

lemma emit_change_simps [simp]:
  "heap (emit_change w i st) = heap w"
  "groups (emit_change w i st) = groups w"
  "next_id (emit_change w i st) = next_id w"
  by (simp_all add: emit_change_def)

lemma states_None_iff:
  "states k st = None \<longleftrightarrow> st \<noteq> PyBool True \<and> st \<noteq> PyBool False \<and> st \<noteq> PyStr ''mixed''"
  by (cases k) (auto simp: states_def)

lemma CheckBox_set_state_same:
  "c_state (heap w i) = st \<Longrightarrow> CheckBox_set_state w i st d = (Inr (), w)"
  by (simp add: CheckBox_set_state_def)

lemma RadioButton_set_state_same:
  "c_state (heap w i) = st \<Longrightarrow> RadioButton_set_state w i st d = (Inr (), w)"
  by (simp add: RadioButton_set_state.simps)

text \<open>What a call of CheckBox.set_state leaves as it was.\<close>

lemma CheckBox_set_state_frame:
  assumes "CheckBox_set_state w i st d = (r, w')"
  shows "groups w' = groups w" and "next_id w' = next_id w"
    and "j \<noteq> i \<Longrightarrow> heap w' j = heap w j"
    and "c_class (heap w' j) = c_class (heap w j)"
    and "c_group (heap w' j) = c_group (heap w j)"
    and "c_has_mixed (heap w' j) = c_has_mixed (heap w j)"
    and "c_signals (heap w' j) = c_signals (heap w j)"
    and "c_label (heap w' j) = c_label (heap w j)"
  using assms
  by (auto simp: CheckBox_set_state_def Let_def split: if_splits option.splits)

lemma CheckBox_set_state_raise:
  assumes "c_state (heap w i) \<noteq> st" "states (c_class (heap w i)) st = None"
  shows "CheckBox_set_state w i st d = (Inl (CheckBoxError i st), w)"
  using assms by (simp add: CheckBox_set_state_def)

lemma CheckBox_set_state_ok:
  assumes "states (c_class (heap w i)) st \<noteq> None"
  shows "fst (CheckBox_set_state w i st d) = Inr ()"
    and "c_state (heap (snd (CheckBox_set_state w i st d)) i) = st"
  using assms by (auto simp: CheckBox_set_state_def Let_def)

lemma CheckBox_set_state_calls:
  assumes "c_state (heap w i) \<noteq> st" "states (c_class (heap w i)) st \<noteq> None"
  shows "calls (snd (CheckBox_set_state w i st d)) =
     (if d \<and> c_state (heap w i) \<noteq> PyNone then
     calls w @ map (\<lambda>(callback, user_data).
               \<lparr>callee = callback, emitter = i, new_state = st,
                user_arg = user_data, seen_state = c_state (heap w i)\<rparr>)
            (c_signals (heap w i)) else calls w)"
  using assms by (auto simp: CheckBox_set_state_def Let_def emit_change_def)

lemma RadioButton_set_state_not_True:
  "st \<noteq> PyBool True \<Longrightarrow> RadioButton_set_state w i st d = CheckBox_set_state w i st d"
  by (cases "CheckBox_set_state w i st d")
     (auto simp: RadioButton_set_state.simps CheckBox_set_state_same split: sum.splits)

lemma states_False [simp]: "states k (PyBool False) \<noteq> None"
  by (simp add: states_None_iff)

lemma states_True [simp]: "states k (PyBool True) \<noteq> None"
  by (simp add: states_None_iff)

lemma states_mixed [simp]: "states k (PyStr ''mixed'') \<noteq> None"
  by (simp add: states_None_iff)

lemma CheckBox_set_state_state:
  assumes "CheckBox_set_state w i st d = (Inr u, w')"
  shows "c_state (heap w' j) = (if j = i then st else c_state (heap w j))"
  using assms
  by (auto simp: CheckBox_set_state_def Let_def split: if_splits option.splits)

lemma CheckBox_set_state_Inl:
  assumes "CheckBox_set_state w i st d = (Inl e, w')"
  shows "w' = w" and "e = CheckBoxError i st" and "states (c_class (heap w i)) st = None"
    and "c_state (heap w i) \<noteq> st"
  using assms
  by (auto simp: CheckBox_set_state_def Let_def split: if_splits option.splits)

lemma CheckBox_set_state_appends:
  assumes "CheckBox_set_state w i st d = (r, w')"
  shows "\<exists>ex. calls w' = calls w @ ex \<and> (\<forall>c\<in>set ex. emitter c = i \<and> new_state c = st)"
  using assms
  by (auto simp: CheckBox_set_state_def Let_def emit_change_def split: if_splits option.splits)

lemma RadioButton_clear_group_Cons:
  "RadioButton_clear_group w self (cb # rest) =
     (if cb = self then RadioButton_clear_group w self rest
      else if truthy (c_state (heap w cb)) then
        (case CheckBox_set_state w cb (PyBool False) True of
           (Inl e, wld1) \<Rightarrow> (Inl e, wld1)
         | (Inr u, wld1) \<Rightarrow> RadioButton_clear_group wld1 self rest)
      else RadioButton_clear_group w self rest)"
  by (auto simp: RadioButton_set_state_not_True)

text \<open>The loop of RadioButton.set_state: it never raises, and it sets to False the members
  other than self whose state is true in Python's sense.\<close>

lemma RadioButton_clear_group_effect:
  assumes "RadioButton_clear_group w self cs = (r, w')"
  shows "r = Inr () \<and> groups w' = groups w \<and> next_id w' = next_id w \<and>
     (\<forall>j. c_class (heap w' j) = c_class (heap w j) \<and>
          c_group (heap w' j) = c_group (heap w j) \<and>
          c_has_mixed (heap w' j) = c_has_mixed (heap w j) \<and>
          c_signals (heap w' j) = c_signals (heap w j) \<and>
          c_label (heap w' j) = c_label (heap w j) \<and>
          c_state (heap w' j) =
            (if j \<in> set cs \<and> j \<noteq> self \<and> truthy (c_state (heap w j))
             then PyBool False else c_state (heap w j)))"
  using assms
proof (induction cs arbitrary: w)
  case Nil
  then show ?case by simp
next
  case (Cons cb rest)
  show ?case
  proof (cases "cb \<noteq> self \<and> truthy (c_state (heap w cb))")
    case False
    then have "RadioButton_clear_group w self rest = (r, w')"
      using Cons.prems by (auto split: if_splits)
    from Cons.IH [OF this] False show ?thesis by auto
  next
    case True
    obtain r1 w1 where s: "CheckBox_set_state w cb (PyBool False) True = (r1, w1)"
      by (cases "CheckBox_set_state w cb (PyBool False) True")
    have "fst (CheckBox_set_state w cb (PyBool False) True) = Inr ()"
      by (rule CheckBox_set_state_ok) simp
    with s have r1: "r1 = Inr ()" by simp
    from True Cons.prems s r1 have rest: "RadioButton_clear_group w1 self rest = (r, w')"
      by (simp add: RadioButton_clear_group_Cons del: RadioButton_clear_group.simps)
    note fr = CheckBox_set_state_frame [OF s]
    have st: "\<And>j. c_state (heap w1 j) = (if j = cb then PyBool False else c_state (heap w j))"
      using CheckBox_set_state_state s r1 by blast
    from Cons.IH [OF rest] show ?thesis
      using True by (auto simp: fr st)
  qed
qed

lemma RadioButton_clear_group_calls:
  assumes "RadioButton_clear_group w self cs = (r, w')"
  shows "\<exists>ex. calls w' = calls w @ ex \<and>
           (\<forall>c\<in>set ex. emitter c \<noteq> self \<and> new_state c = PyBool False)"
  using assms
proof (induction cs arbitrary: w)
  case Nil
  then show ?case by simp
next
  case (Cons cb rest)
  show ?case
  proof (cases "cb \<noteq> self \<and> truthy (c_state (heap w cb))")
    case False
    then have "RadioButton_clear_group w self rest = (r, w')"
      using Cons.prems by (auto split: if_splits)
    from Cons.IH [OF this] show ?thesis .
  next
    case True
    obtain r1 w1 where s: "CheckBox_set_state w cb (PyBool False) True = (r1, w1)"
      by (cases "CheckBox_set_state w cb (PyBool False) True")
    have "fst (CheckBox_set_state w cb (PyBool False) True) = Inr ()"
      by (rule CheckBox_set_state_ok) simp
    with s have r1: "r1 = Inr ()" by simp
    from True Cons.prems s r1 have rest: "RadioButton_clear_group w1 self rest = (r, w')"
      by (simp add: RadioButton_clear_group_Cons del: RadioButton_clear_group.simps)
    from CheckBox_set_state_appends [OF s] obtain ex1 where
      e1: "calls w1 = calls w @ ex1" "\<forall>c\<in>set ex1. emitter c = cb \<and> new_state c = PyBool False"
      by blast
    from Cons.IH [OF rest] obtain ex2 where
      e2: "calls w' = calls w1 @ ex2" "\<forall>c\<in>set ex2. emitter c \<noteq> self \<and> new_state c = PyBool False"
      by blast
    have "calls w' = calls w @ (ex1 @ ex2)" using e1 e2 by simp
    moreover have "\<forall>c\<in>set (ex1 @ ex2). emitter c \<noteq> self \<and> new_state c = PyBool False"
      using e1 e2 True by auto
    ultimately show ?thesis by blast
  qed
qed

lemma set_state_frame:
  assumes "set_state w i st d = (r, w')"
  shows "groups w' = groups w" and "next_id w' = next_id w"
    and "c_class (heap w' j) = c_class (heap w j)"
    and "c_group (heap w' j) = c_group (heap w j)"
    and "c_has_mixed (heap w' j) = c_has_mixed (heap w j)"
    and "c_signals (heap w' j) = c_signals (heap w j)"
    and "c_label (heap w' j) = c_label (heap w j)"
proof -
  have "groups w' = groups w \<and> next_id w' = next_id w \<and>
        c_class (heap w' j) = c_class (heap w j) \<and>
        c_group (heap w' j) = c_group (heap w j) \<and>
        c_has_mixed (heap w' j) = c_has_mixed (heap w j) \<and>
        c_signals (heap w' j) = c_signals (heap w j) \<and>
        c_label (heap w' j) = c_label (heap w j)"
  proof (cases "c_class (heap w i) = RadioButtonC \<and> st = PyBool True \<and> c_state (heap w i) \<noteq> st")
    case False
    have "set_state w i st d = CheckBox_set_state w i st d"
    proof (cases "c_state (heap w i) = st")
      case True
      then show ?thesis
        by (simp add: set_state_def RadioButton_set_state_same CheckBox_set_state_same)
    next
      case ne: False
      with False show ?thesis
        by (auto simp: set_state_def RadioButton_set_state_not_True)
    qed
    with assms have "CheckBox_set_state w i st d = (r, w')" by simp
    from CheckBox_set_state_frame [OF this] show ?thesis by simp
  next
    case True
    obtain r1 w1 where s: "CheckBox_set_state w i st d = (r1, w1)"
      by (cases "CheckBox_set_state w i st d")
    note fr = CheckBox_set_state_frame [OF s]
    show ?thesis
    proof (cases "c_group (heap w1 i)")
      case None
      with True s assms have "w' = w1"
        by (auto simp: set_state_def RadioButton_set_state.simps split: if_splits sum.splits)
      with fr show ?thesis by simp
    next
      case (Some g)
      have "fst (CheckBox_set_state w i st d) = Inr ()"
        using True by (intro CheckBox_set_state_ok) simp
      with s have "r1 = Inr ()" by simp
      with True s assms Some have "RadioButton_clear_group w1 i (groups w1 g) = (r, w')"
        by (auto simp: set_state_def RadioButton_set_state.simps split: if_splits)
      from RadioButton_clear_group_effect [OF this] fr show ?thesis by simp
    qed
  qed
  then show "groups w' = groups w" and "next_id w' = next_id w"
    and "c_class (heap w' j) = c_class (heap w j)"
    and "c_group (heap w' j) = c_group (heap w j)"
    and "c_has_mixed (heap w' j) = c_has_mixed (heap w j)"
    and "c_signals (heap w' j) = c_signals (heap w j)"
    and "c_label (heap w' j) = c_label (heap w j)"
    by simp_all
qed

text \<open>The states after a call of set_state that changed the store.\<close>

lemma set_state_states:
  assumes "set_state w i st d = (r, w')"
  shows "(w' = w \<and> (c_state (heap w i) = st \<or> states (c_class (heap w i)) st = None)) \<or>
     (c_state (heap w i) \<noteq> st \<and> states (c_class (heap w i)) st \<noteq> None \<and>
      (\<forall>j. c_state (heap w' j) =
         (if j = i then st
          else if st = PyBool True \<and> c_class (heap w i) = RadioButtonC \<and>
                  j \<in> set (members_of w i) \<and> truthy (c_state (heap w j))
          then PyBool False else c_state (heap w j))))"
proof (cases "c_state (heap w i) = st")
  case True
  then have "w' = w" using assms
    by (auto simp: set_state_def RadioButton_set_state_same CheckBox_set_state_same split: if_splits)
  with True show ?thesis by simp
next
  case ne: False
  obtain r1 w1 where s: "CheckBox_set_state w i st d = (r1, w1)"
    by (cases "CheckBox_set_state w i st d")
  show ?thesis
  proof (cases r1)
    case (Inl e)
    with s have "w1 = w" and "states (c_class (heap w i)) st = None"
      using CheckBox_set_state_Inl(1,3) by blast+
    moreover have "w' = w1" using s Inl assms ne
      by (auto simp: set_state_def RadioButton_set_state.simps split: if_splits)
    ultimately show ?thesis by simp
  next
    case (Inr u)
    note fr = CheckBox_set_state_frame [OF s]
    have st1: "\<And>j. c_state (heap w1 j) = (if j = i then st else c_state (heap w j))"
      using CheckBox_set_state_state s Inr by blast
    have valid: "states (c_class (heap w i)) st \<noteq> None"
      using s Inr ne by (auto simp: CheckBox_set_state_def split: option.splits)
    show ?thesis
    proof (cases "c_class (heap w i) = RadioButtonC \<and> st = PyBool True")
      case False
      then have "w' = w1" using s Inr assms ne
        by (auto simp: set_state_def RadioButton_set_state.simps split: if_splits)
      with st1 valid ne False show ?thesis by auto
    next
      case True
      show ?thesis
      proof (cases "c_group (heap w i)")
        case None
        then have "c_group (heap w1 i) = None" using fr by simp
        with True s Inr assms ne have "w' = w1"
          by (auto simp: set_state_def RadioButton_set_state.simps split: if_splits)
        with st1 valid ne None show ?thesis by (auto simp: members_of_def)
      next
        case (Some g)
        then have "c_group (heap w1 i) = Some g" using fr by simp
        with True s Inr assms ne have "RadioButton_clear_group w1 i (groups w g) = (r, w')"
          by (auto simp: set_state_def RadioButton_set_state.simps fr split: if_splits)
        from RadioButton_clear_group_effect [OF this]
        have "\<And>j. c_state (heap w' j) =
            (if j \<in> set (groups w g) \<and> j \<noteq> i \<and> truthy (c_state (heap w1 j))
             then PyBool False else c_state (heap w1 j))" by blast
        with st1 valid ne True Some show ?thesis by (auto simp: members_of_def)
      qed
    qed
  qed
qed

section \<open>Construction\<close>

lemma upd_upd: "upd (upd w i f) i g = upd w i (\<lambda>c. g (f c))"
  by (simp add: upd_def)

lemma CheckBox_init_unfold:
  "CheckBox_init wld self label st has_mixed on_state_change user_data =
     set_state (prepared wld self label has_mixed on_state_change user_data) self st True"
  by (cases on_state_change)
     (simp_all add: CheckBox_init_def prepared_def Let_def set_label_def connect_signal_def
        upd_upd)

lemma prepared_simps [simp]:
  "groups (prepared w i l hm cb ud) = groups w"
  "next_id (prepared w i l hm cb ud) = next_id w"
  "calls (prepared w i l hm cb ud) = calls w"
  "c_state (heap (prepared w i l hm cb ud) i) = PyNone"
  "c_class (heap (prepared w i l hm cb ud) j) = c_class (heap w j)"
  "c_group (heap (prepared w i l hm cb ud) j) = c_group (heap w j)"
  "c_has_mixed (heap (prepared w i l hm cb ud) i) = hm"
  "j \<noteq> i \<Longrightarrow> heap (prepared w i l hm cb ud) j = heap w j"
  by (simp_all add: prepared_def)

lemma alloc_simps [simp]:
  "groups (alloc w k) = groups w"
  "next_id (alloc w k) = Suc (next_id w)"
  "calls (alloc w k) = calls w"
  "c_class (heap (alloc w k) (next_id w)) = k"
  "c_group (heap (alloc w k) (next_id w)) = None"
  "j \<noteq> next_id w \<Longrightarrow> heap (alloc w k) j = heap w j"
  by (simp_all add: alloc_def)

lemma set_state_ok:
  assumes "states (c_class (heap w i)) st \<noteq> None"
    and "c_class (heap w i) = RadioButtonC \<longrightarrow> c_group (heap w i) \<noteq> None"
  shows "fst (set_state w i st d) = Inr ()"
proof (cases "c_class (heap w i) = RadioButtonC \<and> st = PyBool True \<and> c_state (heap w i) \<noteq> st")
  case False
  have "set_state w i st d = CheckBox_set_state w i st d"
  proof (cases "c_state (heap w i) = st")
    case True
    then show ?thesis
      by (simp add: set_state_def RadioButton_set_state_same CheckBox_set_state_same)
  next
    case ne: False
    with False show ?thesis
      by (auto simp: set_state_def RadioButton_set_state_not_True)
  qed
  with CheckBox_set_state_ok(1) [OF assms(1)] show ?thesis by simp
next
  case True
  obtain r1 w1 where s: "CheckBox_set_state w i st d = (r1, w1)"
    by (cases "CheckBox_set_state w i st d")
  have "fst (CheckBox_set_state w i st d) = Inr ()"
    using assms(1) by (rule CheckBox_set_state_ok)
  with s have r1: "r1 = Inr ()" by simp
  from True assms(2) obtain g where g: "c_group (heap w i) = Some g" by auto
  then have g1: "c_group (heap w1 i) = Some g"
    using CheckBox_set_state_frame(5) [OF s] by simp
  obtain r w' where l: "RadioButton_clear_group w1 i (groups w1 g) = (r, w')"
    by (cases "RadioButton_clear_group w1 i (groups w1 g)")
  from RadioButton_clear_group_effect [OF l] have "r = Inr ()" by simp
  with True s r1 g1 l show ?thesis
    by (simp add: set_state_def RadioButton_set_state.simps)
qed

lemma set_state_calls_split:
  assumes "set_state w i st d = (r, w')"
  shows "\<exists>ex. calls w' = calls (snd (CheckBox_set_state w i st d)) @ ex \<and>
           (\<forall>c\<in>set ex. emitter c \<noteq> i \<and> new_state c = PyBool False)"
proof (cases "c_class (heap w i) = RadioButtonC \<and> st = PyBool True \<and> c_state (heap w i) \<noteq> st")
  case False
  have "set_state w i st d = CheckBox_set_state w i st d"
  proof (cases "c_state (heap w i) = st")
    case True
    then show ?thesis
      by (simp add: set_state_def RadioButton_set_state_same CheckBox_set_state_same)
  next
    case ne: False
    with False show ?thesis
      by (auto simp: set_state_def RadioButton_set_state_not_True)
  qed
  with assms show ?thesis by simp
next
  case True
  obtain r1 w1 where s: "CheckBox_set_state w i st d = (r1, w1)"
    by (cases "CheckBox_set_state w i st d")
  have "fst (CheckBox_set_state w i st d) = Inr ()"
    using True by (intro CheckBox_set_state_ok) simp
  with s have r1: "r1 = Inr ()" by simp
  show ?thesis
  proof (cases "c_group (heap w1 i)")
    case None
    with True s assms r1 have "w' = w1"
      by (auto simp: set_state_def RadioButton_set_state.simps split: if_splits)
    with s show ?thesis by simp
  next
    case (Some g)
    with True s assms r1 have "RadioButton_clear_group w1 i (groups w1 g) = (r, w')"
      by (auto simp: set_state_def RadioButton_set_state.simps split: if_splits)
    from RadioButton_clear_group_calls [OF this] s show ?thesis by simp
  qed
qed

lemma new_RadioButton_unfold:
  assumes "set_state (prepared (upd (alloc wld RadioButtonC) (next_id wld)
                (\<lambda>c. c\<lparr>c_group := Some g\<rparr>)) (next_id wld) label False
                on_state_change user_data) (next_id wld)
              (if st = PyStr ''first True'' then PyBool (groups wld g = []) else st) True
           = (r, w')"
  shows "new_RadioButton wld g label st on_state_change user_data =
     (case r of Inl e \<Rightarrow> (Inl e, w')
      | Inr u \<Rightarrow> (Inr (next_id wld), w'\<lparr>groups := (groups w')(g := groups w' g @ [next_id wld])\<rparr>))"
proof (cases "st = PyStr ''first True''")
  case True
  with assms show ?thesis
    by (simp add: new_RadioButton_def RadioButton_init_def CheckBox_init_unfold
        split: sum.splits)
next
  case False
  with assms show ?thesis
    by (simp add: new_RadioButton_def RadioButton_init_def CheckBox_init_unfold
        split: sum.splits)
qed

lemma new_CheckBox_unfold:
  assumes "CheckBox_set_state (prepared (alloc wld CheckBoxC) (next_id wld) label has_mixed
                on_state_change user_data) (next_id wld) st True = (r, w')"
  shows "new_CheckBox wld label st has_mixed on_state_change user_data =
     (case r of Inl e \<Rightarrow> (Inl e, w') | Inr u \<Rightarrow> (Inr (next_id wld), w'))"
  using assms
  by (simp add: new_CheckBox_def CheckBox_init_unfold set_state_def split: sum.splits)

lemma CheckBox_set_state_calls_None:
  "c_state (heap w i) = PyNone \<Longrightarrow> calls (snd (CheckBox_set_state w i st d)) = calls w"
  by (simp add: CheckBox_set_state_def Let_def split: option.splits)

lemma set_state_calls_prefix:
  assumes "set_state w i st d = (r, w')"
  shows "take (length (calls (snd (CheckBox_set_state w i st d)))) (calls w')
           = calls (snd (CheckBox_set_state w i st d))"
proof (cases "c_class (heap w i) = RadioButtonC \<and> st = PyBool True \<and> c_state (heap w i) \<noteq> st")
  case False
  have "set_state w i st d = CheckBox_set_state w i st d"
  proof (cases "c_state (heap w i) = st")
    case True
    then show ?thesis
      by (simp add: set_state_def RadioButton_set_state_same CheckBox_set_state_same)
  next
    case ne: False
    with False show ?thesis
      by (auto simp: set_state_def RadioButton_set_state_not_True)
  qed
  with assms show ?thesis by simp
next
  case True
  obtain r1 w1 where s: "CheckBox_set_state w i st d = (r1, w1)"
    by (cases "CheckBox_set_state w i st d")
  have "fst (CheckBox_set_state w i st d) = Inr ()"
    using True by (intro CheckBox_set_state_ok) simp
  with s have r1: "r1 = Inr ()" by simp
  show ?thesis
  proof (cases "c_group (heap w1 i)")
    case None
    with True s assms r1 have "w' = w1"
      by (auto simp: set_state_def RadioButton_set_state.simps split: if_splits)
    with s show ?thesis by simp
  next
    case (Some g)
    with True s assms r1 have "RadioButton_clear_group w1 i (groups w1 g) = (r, w')"
      by (auto simp: set_state_def RadioButton_set_state.simps split: if_splits)
    from RadioButton_clear_group_calls [OF this] obtain ex where "calls w' = calls w1 @ ex"
      by blast
    with s show ?thesis by simp
  qed
qed

section \<open>Programs and invariants\<close>

lemma set_state_CheckBox:
  "c_class (heap w i) = CheckBoxC \<Longrightarrow> set_state w i st d = CheckBox_set_state w i st d"
  by (simp add: set_state_def)

text \<open>One step of CheckBox.toggle_state on a CheckBox.\<close>

lemma CheckBox_toggle_step:
  assumes "c_class (heap w i) = CheckBoxC"
  shows "fst (toggle_state w i) = Inr () \<and>
     c_class (heap (snd (toggle_state w i)) i) = CheckBoxC \<and>
     c_has_mixed (heap (snd (toggle_state w i)) i) = c_has_mixed (heap w i) \<and>
     get_state (snd (toggle_state w i)) i =
       (if get_state w i = PyBool False then PyBool True
        else if get_state w i = PyBool True
             then (if c_has_mixed (heap w i) then PyStr ''mixed'' else PyBool False)
        else if get_state w i = PyStr ''mixed'' then PyBool False
        else get_state w i)"
proof -
  have t: "toggle_state w i = CheckBox_toggle_state w i"
    using assms by (simp add: toggle_state_def)
  have k: "\<And>st. states (c_class (heap w i)) st \<noteq> None \<Longrightarrow>
     fst (CheckBox_set_state w i st True) = Inr () \<and>
     c_class (heap (snd (CheckBox_set_state w i st True)) i) = CheckBoxC \<and>
     c_has_mixed (heap (snd (CheckBox_set_state w i st True)) i) = c_has_mixed (heap w i) \<and>
     get_state (snd (CheckBox_set_state w i st True)) i = st"
  proof -
    fix st assume v: "states (c_class (heap w i)) st \<noteq> None"
    obtain r w' where s: "CheckBox_set_state w i st True = (r, w')"
      by (cases "CheckBox_set_state w i st True")
    from CheckBox_set_state_ok [OF v, of True] CheckBox_set_state_frame(4,6) [OF s] s assms
    show "fst (CheckBox_set_state w i st True) = Inr () \<and>
     c_class (heap (snd (CheckBox_set_state w i st True)) i) = CheckBoxC \<and>
     c_has_mixed (heap (snd (CheckBox_set_state w i st True)) i) = c_has_mixed (heap w i) \<and>
     get_state (snd (CheckBox_set_state w i st True)) i = st"
      by (simp add: get_state_def)
  qed
  show ?thesis
    using assms k [of "PyBool True"] k [of "PyBool False"] k [of "PyStr ''mixed''"]
    by (simp add: t CheckBox_toggle_state_def set_state_CheckBox)
qed

lemma set_state_same: "c_state (heap w i) = st \<Longrightarrow> set_state w i st d = (Inr (), w)"
  by (simp add: set_state_def CheckBox_set_state_same RadioButton_set_state_same)

lemma toggle_state_as_set_state:
  "toggle_state w i = set_state w i (toggle_target w i) True"
  by (simp add: toggle_state_def RadioButton_toggle_state_def CheckBox_toggle_state_def
      toggle_target_def get_state_def set_state_same)

text \<open>What one call of a program does to an object that exists already.\<close>

lemma set_state_old:
  assumes "set_state w i st d = (r, w')"
  shows "c_state (heap w' j) = c_state (heap w j) \<or> c_state (heap w' j) = PyBool False \<or>
         (j = i \<and> c_state (heap w' j) = st \<and> states (c_class (heap w i)) st \<noteq> None)"
proof -
  show ?thesis
  proof (cases "w' = w")
    case True
    then show ?thesis by simp
  next
    case False
    with set_state_states [OF assms]
    have v: "states (c_class (heap w i)) st \<noteq> None"
      and a: "\<forall>j. c_state (heap w' j) =
         (if j = i then st
          else if st = PyBool True \<and> c_class (heap w i) = RadioButtonC \<and>
                  j \<in> set (members_of w i) \<and> truthy (c_state (heap w j))
          then PyBool False else c_state (heap w j))" by simp_all
    from a have "c_state (heap w' j) =
         (if j = i then st
          else if st = PyBool True \<and> c_class (heap w i) = RadioButtonC \<and>
                  j \<in> set (members_of w i) \<and> truthy (c_state (heap w j))
          then PyBool False else c_state (heap w j))" by (rule spec)
    with v show ?thesis by (simp split: if_splits)
  qed
qed

lemma new_CheckBox_old:
  shows "j < next_id w \<Longrightarrow> heap (snd (new_CheckBox w label st hm cb ud)) j = heap w j"
    and "groups (snd (new_CheckBox w label st hm cb ud)) = groups w"
    and "next_id (snd (new_CheckBox w label st hm cb ud)) = Suc (next_id w)"
proof -
  let ?p = "prepared (alloc w CheckBoxC) (next_id w) label hm cb ud"
  obtain r w' where s: "CheckBox_set_state ?p (next_id w) st True = (r, w')"
    by (cases "CheckBox_set_state ?p (next_id w) st True")
  have n: "snd (new_CheckBox w label st hm cb ud) = w'"
    by (simp add: new_CheckBox_unfold [OF s] split: sum.splits)
  show "heap (snd (new_CheckBox w label st hm cb ud)) j = heap w j" if "j < next_id w"
  proof -
    from that have "j \<noteq> next_id w" by simp
    with CheckBox_set_state_frame(3) [OF s, of j] have "heap w' j = heap w j" by simp
    with n show ?thesis by simp
  qed
  from CheckBox_set_state_frame(1,2) [OF s] n
  show "groups (snd (new_CheckBox w label st hm cb ud)) = groups w"
    and "next_id (snd (new_CheckBox w label st hm cb ud)) = Suc (next_id w)" by simp_all
qed

lemma new_RadioButton_effect:
  fixes w g label st cb ud
  defines "w' \<equiv> snd (new_RadioButton w g label st cb ud)"
  defines "i \<equiv> next_id w"
  shows "next_id w' = Suc (next_id w)"
    and "c_class (heap w' i) = RadioButtonC" and "c_group (heap w' i) = Some g"
    and "j < next_id w \<Longrightarrow> c_class (heap w' j) = c_class (heap w j)"
    and "j < next_id w \<Longrightarrow> c_group (heap w' j) = c_group (heap w j)"
    and "j < next_id w \<Longrightarrow> c_has_mixed (heap w' j) = c_has_mixed (heap w j)"
    and "j < next_id w \<Longrightarrow> c_state (heap w' j) =
          (if first_True w g st = PyBool True \<and> j \<in> set (groups w g) \<and> truthy (c_state (heap w j))
           then PyBool False else c_state (heap w j))"
    and "c_state (heap w' i) = PyBool True \<Longrightarrow> first_True w g st = PyBool True"
    and "groups w' = groups w \<or> groups w' = (groups w)(g := groups w g @ [i])"
proof -
  let ?w1 = "upd (alloc w RadioButtonC) i (\<lambda>c. c\<lparr>c_group := Some g\<rparr>)"
  let ?p = "prepared ?w1 i label False cb ud"
  obtain r w2 where s: "set_state ?p i (first_True w g st) True = (r, w2)"
    by (cases "set_state ?p i (first_True w g st) True")
  then have s': "set_state (prepared (upd (alloc w RadioButtonC) (next_id w)
                (\<lambda>c. c\<lparr>c_group := Some g\<rparr>)) (next_id w) label False cb ud) (next_id w)
              (if st = PyStr ''first True'' then PyBool (groups w g = []) else st) True
           = (r, w2)"
    by (simp add: i_def first_True_def)
  note u = new_RadioButton_unfold [OF s']
  have hp: "\<And>j. heap w' j = heap w2 j" and np: "next_id w' = next_id w2"
    and gp: "groups w' = groups w2 \<or> groups w' = (groups w2)(g := groups w2 g @ [i])"
    by (simp_all add: w'_def u i_def split: sum.splits)
  note fr = set_state_frame [OF s]
  have pi: "c_class (heap ?p i) = RadioButtonC" "c_group (heap ?p i) = Some g"
    "c_state (heap ?p i) = PyNone"
    by (simp_all add: i_def)
  have pj: "\<And>j. j < next_id w \<Longrightarrow> heap ?p j = heap w j"
    by (simp add: i_def)
  show "next_id w' = Suc (next_id w)" using np fr(2) by simp
  show "c_class (heap w' i) = RadioButtonC" using hp fr(3) pi by simp
  show "c_group (heap w' i) = Some g" using hp fr(4) pi by simp
  show "j < next_id w \<Longrightarrow> c_class (heap w' j) = c_class (heap w j)"
    using hp fr(3) [of j] pj by simp
  show "j < next_id w \<Longrightarrow> c_group (heap w' j) = c_group (heap w j)"
    using hp fr(4) [of j] pj by simp
  show "j < next_id w \<Longrightarrow> c_has_mixed (heap w' j) = c_has_mixed (heap w j)"
    using hp fr(5) [of j] pj by simp
  have mem: "members_of ?p i = groups w g"
    by (simp add: members_of_def pi)
  show "j < next_id w \<Longrightarrow> c_state (heap w' j) =
          (if first_True w g st = PyBool True \<and> j \<in> set (groups w g) \<and> truthy (c_state (heap w j))
           then PyBool False else c_state (heap w j))"
  proof -
    assume j: "j < next_id w"
    then have ji: "j \<noteq> i" by (simp add: i_def)
    from set_state_states [OF s] show ?thesis
    proof
      assume "w2 = ?p \<and> (c_state (heap ?p i) = first_True w g st \<or>
                states (c_class (heap ?p i)) (first_True w g st) = None)"
      then have "w2 = ?p" and "first_True w g st \<noteq> PyBool True"
        using pi by (auto simp: states_None_iff)
      then show ?thesis using hp [of j] pj [OF j] by simp
    next
      assume "c_state (heap ?p i) \<noteq> first_True w g st \<and>
         states (c_class (heap ?p i)) (first_True w g st) \<noteq> None \<and>
         (\<forall>j. c_state (heap w2 j) =
           (if j = i then first_True w g st
            else if first_True w g st = PyBool True \<and> c_class (heap ?p i) = RadioButtonC \<and>
                    j \<in> set (members_of ?p i) \<and> truthy (c_state (heap ?p j))
            then PyBool False else c_state (heap ?p j)))"
      then have "c_state (heap w2 j) =
           (if j = i then first_True w g st
            else if first_True w g st = PyBool True \<and> c_class (heap ?p i) = RadioButtonC \<and>
                    j \<in> set (members_of ?p i) \<and> truthy (c_state (heap ?p j))
            then PyBool False else c_state (heap ?p j))" by blast
      then show ?thesis using hp [of j] pj [OF j] ji mem pi(1) by simp
    qed
  qed
  show "c_state (heap w' i) = PyBool True \<Longrightarrow> first_True w g st = PyBool True"
    using set_state_states [OF s] hp [of i] pi(3) by auto
  show "groups w' = groups w \<or> groups w' = (groups w)(g := groups w g @ [i])"
    using gp fr(1) by simp
qed

lemma toggle_target_mixed:
  "toggle_target w i = PyStr ''mixed'' \<Longrightarrow> c_has_mixed (heap w i)"
  by (simp add: toggle_target_def split: if_splits)

text \<open>Every call of a program is one of six changes of the store.\<close>

lemma toggle_state_rule:
  assumes "\<And>st. (st = PyStr ''mixed'' \<longrightarrow> c_has_mixed (heap w i)) \<Longrightarrow>
              P (snd (set_state w i st True))"
  shows "P (snd (toggle_state w i))"
proof -
  have "toggle_target w i = PyStr ''mixed'' \<longrightarrow> c_has_mixed (heap w i)"
    using toggle_target_mixed [of w i] by simp
  from assms [OF this] show ?thesis by (simp add: toggle_state_as_set_state)
qed

lemma exec_op_rule:
  assumes same: "P w"
    and label: "\<And>i label. P (set_label w i label)"
    and state: "\<And>i st d.
            (st = PyStr ''mixed'' \<longrightarrow> c_has_mixed (heap w i) \<or> x = SetState i st d) \<Longrightarrow>
            P (snd (set_state w i st d))"
    and assign: "\<And>i v. x = AssignState i v \<Longrightarrow> P (snd (assign_state w i v))"
    and box: "\<And>label st hm cb ud. P (snd (new_CheckBox w label st hm cb ud))"
    and radio: "\<And>g label st cb ud. P (snd (new_RadioButton w g label st cb ud))"
  shows "P (exec_op cm imp w x)"
proof -
  have tog: "\<And>i. P (snd (toggle_state w i))"
    by (rule toggle_state_rule) (rule state, simp)
  show ?thesis
  proof (cases x)
    case (NewCheckBox label st hm cb ud)
    with box show ?thesis by simp
  next
    case (NewRadioButton g label st cb ud)
    with radio show ?thesis by simp
  next
    case (SetState i st d)
    have "P (snd (set_state w i st d))" by (rule state) (simp add: SetState)
    with SetState same show ?thesis by simp
  next
    case (AssignState i v)
    then have "P (snd (assign_state w i v))" by (rule assign)
    with AssignState same show ?thesis by simp
  next
    case (ToggleState i)
    with tog same show ?thesis by simp
  next
    case (SetLabel i label)
    with label same show ?thesis by simp
  next
    case (Keypress i sz key)
    obtain r w' where t: "toggle_state w i = (r, w')" by (cases "toggle_state w i")
    with tog [of i] have "P w'" by simp
    with t same have "P (snd (keypress cm w i sz key))"
      by (simp add: keypress_def split: sum.splits)
    with Keypress same show ?thesis by simp
  next
    case (MouseEvent i sz event btn px py focus)
    obtain r w' where t: "toggle_state w i = (r, w')" by (cases "toggle_state w i")
    with tog [of i] have "P w'" by simp
    with t same have "P (snd (mouse_event imp w i sz event btn px py focus))"
      by (simp add: mouse_event_def split: sum.splits)
    with MouseEvent same show ?thesis by simp
  qed
qed

lemma filter_length_mono:
  assumes "\<forall>x\<in>set xs. P x \<longrightarrow> Q x"
  shows "length (filter P xs) \<le> length (filter Q xs)"
  using assms by (induction xs) auto

lemma filter_at_most_one:
  assumes "distinct xs" and "\<forall>x\<in>set xs. P x \<longrightarrow> x = a"
  shows "length (filter P xs) \<le> 1"
  using assms
proof (induction xs)
  case Nil
  then show ?case by simp
next
  case (Cons y ys)
  from Cons.prems have d: "distinct ys" and n: "y \<notin> set ys"
    and all: "\<forall>x\<in>set ys. P x \<longrightarrow> x = a" by simp_all
  note ih = Cons.IH [OF d all]
  show ?case
  proof (cases "P y")
    case False
    with ih show ?thesis by simp
  next
    case True
    with Cons.prems(2) have "y = a" by simp
    with n all have "\<forall>x\<in>set ys. \<not> P x" by blast
    then have "filter P ys = []" by (simp add: filter_empty_conv)
    with True show ?thesis by simp
  qed
qed

lemma group_inv_init: "group_inv init_world"
  by (simp add: group_inv_def init_world_def)

lemma set_label_simps [simp]:
  "groups (set_label w i label) = groups w"
  "next_id (set_label w i label) = next_id w"
  "calls (set_label w i label) = calls w"
  "c_state (heap (set_label w i label) j) = c_state (heap w j)"
  "c_class (heap (set_label w i label) j) = c_class (heap w j)"
  "c_group (heap (set_label w i label) j) = c_group (heap w j)"
  "c_has_mixed (heap (set_label w i label) j) = c_has_mixed (heap w j)"
  by (simp_all add: set_label_def)

lemma group_inv_set_label: "group_inv w \<Longrightarrow> group_inv (set_label w i label)"
  by (simp add: group_inv_def)

text \<open>A change of the store that keeps the invariant of the groups.\<close>

lemma group_inv_step:
  assumes inv: "group_inv w"
    and nid: "next_id w \<le> next_id w'"
    and cls: "\<And>c. c < next_id w \<Longrightarrow>
          c_class (heap w' c) = c_class (heap w c) \<and> c_group (heap w' c) = c_group (heap w c)"
    and grp: "\<And>g. groups w' g = groups w g \<or>
          (groups w' g = groups w g @ [next_id w] \<and> next_id w < next_id w' \<and>
           c_class (heap w' (next_id w)) = RadioButtonC \<and>
           c_group (heap w' (next_id w)) = Some g \<and>
           (c_state (heap w' (next_id w)) = PyBool True \<longrightarrow>
              (\<forall>c\<in>set (groups w g). c_state (heap w' c) \<noteq> PyBool True)))"
    and excl: "\<And>g. (\<forall>c\<in>set (groups w g).
              c_state (heap w' c) = PyBool True \<longrightarrow> c_state (heap w c) = PyBool True) \<or>
          (\<exists>a. \<forall>c\<in>set (groups w g). c_state (heap w' c) = PyBool True \<longrightarrow> c = a)"
  shows "group_inv w'"
proof -
  have "distinct (groups w' g) \<and>
        (\<forall>c\<in>set (groups w' g). c < next_id w' \<and> c_class (heap w' c) = RadioButtonC \<and>
                                  c_group (heap w' c) = Some g) \<and>
        length (filter (\<lambda>c. c_state (heap w' c) = PyBool True) (groups w' g)) \<le> 1" for g
  proof -
    from inv have d: "distinct (groups w g)"
      and m: "\<forall>c\<in>set (groups w g). c < next_id w \<and> c_class (heap w c) = RadioButtonC \<and>
                                  c_group (heap w c) = Some g"
      and e: "length (filter (\<lambda>c. c_state (heap w c) = PyBool True) (groups w g)) \<le> 1"
      by (simp_all add: group_inv_def)
    have m': "\<forall>c\<in>set (groups w g). c < next_id w' \<and> c_class (heap w' c) = RadioButtonC \<and>
                                  c_group (heap w' c) = Some g"
      using m nid cls by fastforce
    have old: "length (filter (\<lambda>c. c_state (heap w' c) = PyBool True) (groups w g)) \<le> 1"
    proof -
      from excl [of g] show ?thesis
      proof
        assume "\<forall>c\<in>set (groups w g).
              c_state (heap w' c) = PyBool True \<longrightarrow> c_state (heap w c) = PyBool True"
        from filter_length_mono [of "groups w g" "\<lambda>c. c_state (heap w' c) = PyBool True"
            "\<lambda>c. c_state (heap w c) = PyBool True", OF this] e
        show ?thesis by simp
      next
        assume "\<exists>a. \<forall>c\<in>set (groups w g). c_state (heap w' c) = PyBool True \<longrightarrow> c = a"
        then obtain a where
          "\<forall>c\<in>set (groups w g). c_state (heap w' c) = PyBool True \<longrightarrow> c = a" ..
        from filter_at_most_one [of "groups w g" "\<lambda>c. c_state (heap w' c) = PyBool True" a,
            OF d this]
        show ?thesis .
      qed
    qed
    from grp [of g] show ?thesis
    proof
      assume "groups w' g = groups w g"
      with d m' old show ?thesis by simp
    next
      assume a: "groups w' g = groups w g @ [next_id w] \<and> next_id w < next_id w' \<and>
           c_class (heap w' (next_id w)) = RadioButtonC \<and>
           c_group (heap w' (next_id w)) = Some g \<and>
           (c_state (heap w' (next_id w)) = PyBool True \<longrightarrow>
              (\<forall>c\<in>set (groups w g). c_state (heap w' c) \<noteq> PyBool True))"
      have fresh: "next_id w \<notin> set (groups w g)" using m by auto
      have 1: "distinct (groups w' g)" using a d fresh by simp
      have 2: "\<forall>c\<in>set (groups w' g). c < next_id w' \<and> c_class (heap w' c) = RadioButtonC \<and>
                                  c_group (heap w' c) = Some g"
        using a m' by simp
      have 3: "length (filter (\<lambda>c. c_state (heap w' c) = PyBool True) (groups w' g)) \<le> 1"
      proof (cases "c_state (heap w' (next_id w)) = PyBool True")
        case False
        with a old show ?thesis by simp
      next
        case True
        with a have "\<forall>c\<in>set (groups w g). c_state (heap w' c) \<noteq> PyBool True" by simp
        then have "filter (\<lambda>c. c_state (heap w' c) = PyBool True) (groups w g) = []"
          by (simp add: filter_empty_conv)
        with a True show ?thesis by simp
      qed
      from 1 2 3 show ?thesis by simp
    qed
  qed
  then show ?thesis by (simp add: group_inv_def)
qed

lemma group_inv_new_CheckBox:
  assumes "group_inv w"
  shows "group_inv (snd (new_CheckBox w label st hm cb ud))"
proof -
  let ?w' = "snd (new_CheckBox w label st hm cb ud)"
  have m: "\<And>h c. c \<in> set (groups w h) \<Longrightarrow> c < next_id w"
    using assms by (simp add: group_inv_def)
  from assms show ?thesis
  proof (rule group_inv_step)
    show "next_id w \<le> next_id ?w'" by (simp add: new_CheckBox_old)
    show "c_class (heap ?w' c) = c_class (heap w c) \<and> c_group (heap ?w' c) = c_group (heap w c)"
      if "c < next_id w" for c using that by (simp add: new_CheckBox_old)
    show "groups ?w' h = groups w h \<or>
          (groups ?w' h = groups w h @ [next_id w] \<and> next_id w < next_id ?w' \<and>
           c_class (heap ?w' (next_id w)) = RadioButtonC \<and>
           c_group (heap ?w' (next_id w)) = Some h \<and>
           (c_state (heap ?w' (next_id w)) = PyBool True \<longrightarrow>
              (\<forall>c\<in>set (groups w h). c_state (heap ?w' c) \<noteq> PyBool True)))" for h
      by (simp add: new_CheckBox_old)
    show "(\<forall>c\<in>set (groups w h).
              c_state (heap ?w' c) = PyBool True \<longrightarrow> c_state (heap w c) = PyBool True) \<or>
          (\<exists>a. \<forall>c\<in>set (groups w h). c_state (heap ?w' c) = PyBool True \<longrightarrow> c = a)" for h
      using m [of _ h] by (simp add: new_CheckBox_old)
  qed
qed

lemma group_inv_new_RadioButton:
  assumes "group_inv w"
  shows "group_inv (snd (new_RadioButton w g label st cb ud))"
proof -
  let ?w' = "snd (new_RadioButton w g label st cb ud)"
  note e = new_RadioButton_effect [where w=w and g=g and label=label and st=st and cb=cb and ud=ud]
  have m: "\<And>h c. c \<in> set (groups w h) \<Longrightarrow> c < next_id w"
    using assms by (simp add: group_inv_def)
  have st: "\<And>h c. c \<in> set (groups w h) \<Longrightarrow> c_state (heap ?w' c) =
          (if first_True w g st = PyBool True \<and> c \<in> set (groups w g) \<and> truthy (c_state (heap w c))
           then PyBool False else c_state (heap w c))"
    using e(7) m by blast
  from assms show ?thesis
  proof (rule group_inv_step)
    show "next_id w \<le> next_id ?w'" using e(1) by simp
    show "c_class (heap ?w' c) = c_class (heap w c) \<and> c_group (heap ?w' c) = c_group (heap w c)"
      if "c < next_id w" for c using e(4,5) that by simp
    show "groups ?w' h = groups w h \<or>
          (groups ?w' h = groups w h @ [next_id w] \<and> next_id w < next_id ?w' \<and>
           c_class (heap ?w' (next_id w)) = RadioButtonC \<and>
           c_group (heap ?w' (next_id w)) = Some h \<and>
           (c_state (heap ?w' (next_id w)) = PyBool True \<longrightarrow>
              (\<forall>c\<in>set (groups w h). c_state (heap ?w' c) \<noteq> PyBool True)))" for h
    proof (cases "groups ?w' h = groups w h")
      case True
      then show ?thesis by simp
    next
      case False
      with e(9) have hg: "h = g" and app: "groups ?w' h = groups w h @ [next_id w]"
        by (auto split: if_splits)
      have "\<forall>c\<in>set (groups w g). c_state (heap ?w' c) \<noteq> PyBool True"
        if "c_state (heap ?w' (next_id w)) = PyBool True"
      proof
        fix c assume c: "c \<in> set (groups w g)"
        from e(8) that have "first_True w g st = PyBool True" by simp
        with st [OF c] c show "c_state (heap ?w' c) \<noteq> PyBool True"
          by (cases "c_state (heap w c)") (auto split: if_splits)
      qed
      with hg app e(1,2,3) show ?thesis by simp
    qed
    show "(\<forall>c\<in>set (groups w h).
              c_state (heap ?w' c) = PyBool True \<longrightarrow> c_state (heap w c) = PyBool True) \<or>
          (\<exists>a. \<forall>c\<in>set (groups w h). c_state (heap ?w' c) = PyBool True \<longrightarrow> c = a)" for h
    proof -
      have "\<forall>c\<in>set (groups w h).
              c_state (heap ?w' c) = PyBool True \<longrightarrow> c_state (heap w c) = PyBool True"
      proof
        fix c assume "c \<in> set (groups w h)"
        from st [OF this] show "c_state (heap ?w' c) = PyBool True \<longrightarrow> c_state (heap w c) = PyBool True"
          by (simp split: if_splits)
      qed
      then show ?thesis ..
    qed
  qed
qed

lemma group_inv_set_state:
  assumes inv: "group_inv w"
  shows "group_inv (snd (set_state w i st d))"
proof -
  obtain r w' where s: "set_state w i st d = (r, w')" by (cases "set_state w i st d")
  note fr = set_state_frame [OF s]
  have "group_inv w'"
  proof (cases "w' = w")
    case True
    with inv show ?thesis by simp
  next
    case False
    with set_state_states [OF s]
    have ne: "c_state (heap w i) \<noteq> st"
      and a: "\<forall>j. c_state (heap w' j) =
         (if j = i then st
          else if st = PyBool True \<and> c_class (heap w i) = RadioButtonC \<and>
                  j \<in> set (members_of w i) \<and> truthy (c_state (heap w j))
          then PyBool False else c_state (heap w j))" by simp_all
    have st': "\<And>j. c_state (heap w' j) =
         (if j = i then st
          else if st = PyBool True \<and> c_class (heap w i) = RadioButtonC \<and>
                  j \<in> set (members_of w i) \<and> truthy (c_state (heap w j))
          then PyBool False else c_state (heap w j))" using a by blast
    from inv show ?thesis
    proof (rule group_inv_step)
      show "next_id w \<le> next_id w'" using fr(2) by simp
      show "c_class (heap w' c) = c_class (heap w c) \<and> c_group (heap w' c) = c_group (heap w c)"
        for c using fr(3,4) by simp
      show "groups w' g = groups w g \<or>
          (groups w' g = groups w g @ [next_id w] \<and> next_id w < next_id w' \<and>
           c_class (heap w' (next_id w)) = RadioButtonC \<and>
           c_group (heap w' (next_id w)) = Some g \<and>
           (c_state (heap w' (next_id w)) = PyBool True \<longrightarrow>
              (\<forall>c\<in>set (groups w g). c_state (heap w' c) \<noteq> PyBool True)))" for g
        using fr(1) by simp
      show "(\<forall>c\<in>set (groups w g).
              c_state (heap w' c) = PyBool True \<longrightarrow> c_state (heap w c) = PyBool True) \<or>
          (\<exists>a. \<forall>c\<in>set (groups w g). c_state (heap w' c) = PyBool True \<longrightarrow> c = a)" for g
      proof (cases "i \<in> set (groups w g) \<and> st = PyBool True")
        case True
        from inv have "\<forall>c\<in>set (groups w g). c_class (heap w c) = RadioButtonC \<and>
                                  c_group (heap w c) = Some g"
          by (simp add: group_inv_def)
        with True have ci: "c_class (heap w i) = RadioButtonC"
          and gi: "c_group (heap w i) = Some g" by blast+
        then have mem: "members_of w i = groups w g" by (simp add: members_of_def)
        have "\<forall>c\<in>set (groups w g). c_state (heap w' c) = PyBool True \<longrightarrow> c = i"
        proof (intro ballI impI)
          fix c assume c: "c \<in> set (groups w g)" and t: "c_state (heap w' c) = PyBool True"
          show "c = i"
          proof (rule ccontr)
            assume "c \<noteq> i"
            with st' [of c] True ci mem c
            have "c_state (heap w' c) =
              (if truthy (c_state (heap w c)) then PyBool False else c_state (heap w c))"
              by simp
            with t show False by (cases "c_state (heap w c)") (auto split: if_splits)
          qed
        qed
        then show ?thesis by blast
      next
        case False
        have "\<forall>c\<in>set (groups w g).
              c_state (heap w' c) = PyBool True \<longrightarrow> c_state (heap w c) = PyBool True"
        proof (intro ballI impI)
          fix c assume c: "c \<in> set (groups w g)" and t: "c_state (heap w' c) = PyBool True"
          show "c_state (heap w c) = PyBool True"
          proof (cases "c = i")
            case True
            with st' [of c] t have "st = PyBool True" by simp
            with False c True show ?thesis by simp
          next
            case ne: False
            with st' [of c] t show ?thesis by (simp split: if_splits)
          qed
        qed
        then show ?thesis ..
      qed
    qed
  qed
  with s show ?thesis by simp
qed

text \<open>Every call but an assignment to the property keeps the invariant of the groups.\<close>

lemma group_inv_exec_op:
  "group_inv w \<Longrightarrow> \<forall>i v. x \<noteq> AssignState i v \<Longrightarrow> group_inv (exec_op cm imp w x)"
  by (rule exec_op_rule)
     (simp_all add: group_inv_set_label group_inv_set_state group_inv_new_CheckBox
        group_inv_new_RadioButton)

lemma group_inv_run:
  "group_inv w \<Longrightarrow> \<forall>i v. AssignState i v \<notin> set xs \<Longrightarrow> group_inv (run cm imp w xs)"
proof (induction xs arbitrary: w)
  case Nil
  then show ?case by simp
next
  case (Cons x xs)
  from Cons.prems(2) have a: "\<forall>i v. x \<noteq> AssignState i v"
    and b: "\<forall>i v. AssignState i v \<notin> set xs" by auto
  from Cons.IH [OF group_inv_exec_op [OF Cons.prems(1) a] b] show ?case by simp
qed

text \<open>
  Programs of constructions and method calls, run from the empty store with handlers that
  make no calls of their own, leave at most one member of every group with state \<open>True\<close>.
\<close>

lemma method_calls_keep_one_True:
  assumes "\<forall>i v. AssignState i v \<notin> set xs"
  shows "length (filter (\<lambda>c. get_state (run cm imp init_world xs) c = PyBool True)
             (groups (run cm imp init_world xs) g)) \<le> 1"
  using group_inv_run [OF group_inv_init assms, of cm imp]
  by (simp add: group_inv_def get_state_def)

lemma new_CheckBox_new:
  assumes "states CheckBoxC st \<noteq> None"
  shows "fst (new_CheckBox w label st hm cb ud) = Inr (next_id w)"
    and "c_state (heap (snd (new_CheckBox w label st hm cb ud)) (next_id w)) = st"
    and "c_has_mixed (heap (snd (new_CheckBox w label st hm cb ud)) (next_id w)) = hm"
proof -
  let ?p = "prepared (alloc w CheckBoxC) (next_id w) label hm cb ud"
  obtain r w' where s: "CheckBox_set_state ?p (next_id w) st True = (r, w')"
    by (cases "CheckBox_set_state ?p (next_id w) st True")
  have v: "states (c_class (heap ?p (next_id w))) st \<noteq> None" using assms by simp
  from CheckBox_set_state_ok [OF v, of True] s
  have r: "r = Inr ()" and st: "c_state (heap w' (next_id w)) = st" by simp_all
  from CheckBox_set_state_frame(6) [OF s, of "next_id w"]
  have hm: "c_has_mixed (heap w' (next_id w)) = hm" by simp
  from r st hm show "fst (new_CheckBox w label st hm cb ud) = Inr (next_id w)"
    and "c_state (heap (snd (new_CheckBox w label st hm cb ud)) (next_id w)) = st"
    and "c_has_mixed (heap (snd (new_CheckBox w label st hm cb ud)) (next_id w)) = hm"
    by (simp_all add: new_CheckBox_unfold [OF s])
qed

lemma CheckBox_set_state_old:
  assumes "CheckBox_set_state w i st d = (r, w')"
  shows "c_state (heap w' j) = c_state (heap w j) \<or>
         (j = i \<and> c_state (heap w' j) = st \<and> states (c_class (heap w i)) st \<noteq> None)"
proof (cases r)
  case (Inl e)
  with assms have "w' = w" using CheckBox_set_state_Inl(1) by blast
  then show ?thesis by simp
next
  case (Inr u)
  with assms have a: "c_state (heap w' j) = (if j = i then st else c_state (heap w j))"
    using CheckBox_set_state_state by blast
  show ?thesis
  proof (cases "c_state (heap w i) = st")
    case True
    with a show ?thesis by simp
  next
    case False
    with assms Inr have "states (c_class (heap w i)) st \<noteq> None"
      by (auto simp: CheckBox_set_state_def split: option.splits)
    with a show ?thesis by simp
  qed
qed

text \<open>The state of an object that exists stays among the keys of states.\<close>

lemma defined_exec_op:
  assumes "j < next_id w \<and> states CheckBoxC (c_state (heap w j)) \<noteq> None"
  shows "j < next_id (exec_op cm imp w x) \<and>
         states CheckBoxC (c_state (heap (exec_op cm imp w x) j)) \<noteq> None"
  using assms
proof (rule exec_op_rule)
  show "j < next_id (set_label w i label) \<and>
        states CheckBoxC (c_state (heap (set_label w i label) j)) \<noteq> None" for i label
    using assms by simp
  show "j < next_id (snd (set_state w i st d)) \<and>
        states CheckBoxC (c_state (heap (snd (set_state w i st d)) j)) \<noteq> None" for i st d
  proof -
    obtain r w' where s: "set_state w i st d = (r, w')" by (cases "set_state w i st d")
    from set_state_old [OF s, of j] set_state_frame(2) [OF s] assms s show ?thesis
      by (auto simp: states_None_iff)
  qed
  show "j < next_id (snd (assign_state w i v)) \<and>
        states CheckBoxC (c_state (heap (snd (assign_state w i v)) j)) \<noteq> None" for i v
  proof -
    obtain r w' where s: "CheckBox_set_state w i v True = (r, w')"
      by (cases "CheckBox_set_state w i v True")
    from CheckBox_set_state_old [OF s, of j] CheckBox_set_state_frame(2) [OF s] assms s
    show ?thesis by (auto simp: states_None_iff assign_state_def)
  qed
  show "j < next_id (snd (new_CheckBox w label st hm cb ud)) \<and>
        states CheckBoxC (c_state (heap (snd (new_CheckBox w label st hm cb ud)) j)) \<noteq> None"
    for label st hm cb ud
    using assms by (simp add: new_CheckBox_old)
  show "j < next_id (snd (new_RadioButton w g label st cb ud)) \<and>
        states CheckBoxC (c_state (heap (snd (new_RadioButton w g label st cb ud)) j)) \<noteq> None"
    for g label st cb ud
  proof -
    note e = new_RadioButton_effect [where w=w and g=g and label=label and st=st
        and cb=cb and ud=ud]
    from assms e(1) e(7) [where j=j] show ?thesis by (auto simp: states_None_iff)
  qed
qed

lemma defined_run:
  "j < next_id w \<and> states CheckBoxC (c_state (heap w j)) \<noteq> None \<Longrightarrow>
   states CheckBoxC (c_state (heap (run cm imp w xs) j)) \<noteq> None"
proof (induction xs arbitrary: w)
  case Nil
  then show ?case by simp
next
  case (Cons x xs)
  from Cons.IH [OF defined_exec_op [OF Cons.prems]] show ?case by simp
qed

lemma two_valued_exec_op:
  assumes tv: "two_valued w j" and x: "\<forall>d. x \<noteq> SetState j (PyStr ''mixed'') d"
    and y: "x \<noteq> AssignState j (PyStr ''mixed'')"
  shows "two_valued (exec_op cm imp w x) j"
proof (rule exec_op_rule [where P = "\<lambda>w. two_valued w j"])
  show "two_valued w j" by (rule tv)
  show "two_valued (set_label w i label) j" for i label
    using tv by (simp add: two_valued_def)
  show "two_valued (snd (set_state w i st d)) j"
    if c: "st = PyStr ''mixed'' \<longrightarrow> c_has_mixed (heap w i) \<or> x = SetState i st d" for i st d
  proof -
    obtain r w' where s: "set_state w i st d = (r, w')" by (cases "set_state w i st d")
    note fr = set_state_frame(2,5) [OF s]
    from set_state_old [OF s, of j]
    have "c_state (heap w' j) = PyBool False \<or> c_state (heap w' j) = PyBool True"
    proof (elim disjE conjE)
      assume "c_state (heap w' j) = c_state (heap w j)"
      with tv show ?thesis by (simp add: two_valued_def)
    next
      assume "c_state (heap w' j) = PyBool False"
      then show ?thesis by simp
    next
      assume ji: "j = i" and e: "c_state (heap w' j) = st"
        and v: "states (c_class (heap w i)) st \<noteq> None"
      have "st \<noteq> PyStr ''mixed''"
      proof
        assume m: "st = PyStr ''mixed''"
        with c have "c_has_mixed (heap w i) \<or> x = SetState i st d" by simp
        with tv ji x m show False by (auto simp: two_valued_def)
      qed
      with v e show ?thesis by (auto simp: states_None_iff)
    qed
    with tv fr s show ?thesis by (simp add: two_valued_def)
  qed
  show "two_valued (snd (assign_state w i v)) j" if c: "x = AssignState i v" for i v
  proof -
    obtain r w' where s: "CheckBox_set_state w i v True = (r, w')"
      by (cases "CheckBox_set_state w i v True")
    note fr = CheckBox_set_state_frame(2,6) [OF s]
    from CheckBox_set_state_old [OF s, of j]
    have "c_state (heap w' j) = PyBool False \<or> c_state (heap w' j) = PyBool True"
    proof (elim disjE conjE)
      assume "c_state (heap w' j) = c_state (heap w j)"
      with tv show ?thesis by (simp add: two_valued_def)
    next
      assume ji: "j = i" and e: "c_state (heap w' j) = v"
        and v: "states (c_class (heap w i)) v \<noteq> None"
      from c y ji have "v \<noteq> PyStr ''mixed''" by auto
      with v e show ?thesis by (auto simp: states_None_iff)
    qed
    with tv fr s show ?thesis by (simp add: two_valued_def assign_state_def)
  qed
  show "two_valued (snd (new_CheckBox w label st hm cb ud)) j" for label st hm cb ud
    using tv by (simp add: two_valued_def new_CheckBox_old)
  show "two_valued (snd (new_RadioButton w g label st cb ud)) j" for g label st cb ud
  proof -
    note e = new_RadioButton_effect [where w=w and g=g and label=label and st=st
        and cb=cb and ud=ud]
    from tv e(1) e(6) [where j=j] e(7) [where j=j] show ?thesis
      by (auto simp: two_valued_def)
  qed
qed

lemma two_valued_run:
  "two_valued w j \<Longrightarrow> \<forall>d. SetState j (PyStr ''mixed'') d \<notin> set xs \<Longrightarrow>
   AssignState j (PyStr ''mixed'') \<notin> set xs \<Longrightarrow>
   two_valued (run cm imp w xs) j"
proof (induction xs arbitrary: w)
  case Nil
  then show ?case by simp
next
  case (Cons x xs)
  from Cons.prems(2) have a: "\<forall>d. x \<noteq> SetState j (PyStr ''mixed'') d"
    and b: "\<forall>d. SetState j (PyStr ''mixed'') d \<notin> set xs" by auto
  from Cons.prems(3) have c: "x \<noteq> AssignState j (PyStr ''mixed'')"
    and d: "AssignState j (PyStr ''mixed'') \<notin> set xs" by auto
  from Cons.IH [OF two_valued_exec_op [OF Cons.prems(1) a c] b d] show ?case by simp
qed

text \<open>An invalid state is rejected by both classes, and the store is as before, as soon as
  the control has a state.\<close>

lemma set_state_raise:
  assumes "c_state (heap w i) \<noteq> st" and "states (c_class (heap w i)) st = None"
  shows "set_state w i st d = (Inl (CheckBoxError i st), w)"
proof -
  have "CheckBox_set_state w i st d = (Inl (CheckBoxError i st), w)"
    using assms by (rule CheckBox_set_state_raise)
  with assms(1) show ?thesis
    by (simp add: set_state_def RadioButton_set_state.simps)
qed

text \<open>Button.mouse_event: one call with the button alone on a press of button 1 when there is
  a callback, nothing otherwise.\<close>

lemma Button_mouse_event_press:
  "is_mouse_press event \<Longrightarrow> b_on_press b = Some f \<Longrightarrow>
   Button_mouse_event is_mouse_press b sz event 1 x y focus =
     (True, [\<lparr>p_callee = f, p_button = b, p_args = []\<rparr>])"
  by (simp add: Button_mouse_event_def)

lemma Button_mouse_event_other:
  "btn \<noteq> 1 \<or> \<not> is_mouse_press event \<Longrightarrow>
   Button_mouse_event is_mouse_press b sz event btn x y focus = (False, [])"
  by (simp add: Button_mouse_event_def)

section \<open>Claims\<close>

text \<open>
  Claim C9.  For a CheckBox and for a RadioButton, \<open>set_state\<close> with the value that the
  control already has returns at once: no handler is called, the composition \<open>w\<close> is not
  rebuilt, and the whole store is as before.
\<close>

theorem set_state_unchanged_is_noop:
  "set_state wld self (get_state wld self) do_callback = (Inr (), wld) \<and>
   CheckBox_set_state wld self (get_state wld self) do_callback = (Inr (), wld) \<and>
   RadioButton_set_state wld self (get_state wld self) do_callback = (Inr (), wld)"
  by (simp add: get_state_def set_state_def CheckBox_set_state_same RadioButton_set_state_same)


text \<open>
  Claim C3.  When \<open>set_state\<close> changes the state of a control that has a state already, to
  a valid state and with \<open>do_callback\<close>, every connected handler is called once, in
  connection order, with the new state, and while it runs the control still reports the old
  state; afterwards the control reports the new one.  For a RadioButton the calls made for
  the other members of the group come after these.
\<close>

theorem change_emitted_before_commit:
  assumes "get_state wld self \<noteq> st"
    and "states (c_class (heap wld self)) st \<noteq> None"
    and "get_state wld self \<noteq> PyNone"
  shows "fst (CheckBox_set_state wld self st True) = Inr () \<and>
     calls (snd (CheckBox_set_state wld self st True)) =
       calls wld @ map (\<lambda>(callback, user_data).
          \<lparr>callee = callback, emitter = self, new_state = st, user_arg = user_data,
           seen_state = get_state wld self\<rparr>) (c_signals (heap wld self)) \<and>
     get_state (snd (CheckBox_set_state wld self st True)) self = st \<and>
     take (length (calls wld) + length (c_signals (heap wld self)))
          (calls (snd (set_state wld self st True))) =
       calls wld @ map (\<lambda>(callback, user_data).
          \<lparr>callee = callback, emitter = self, new_state = st, user_arg = user_data,
           seen_state = get_state wld self\<rparr>) (c_signals (heap wld self)) \<and>
     get_state (snd (set_state wld self st True)) self = st"
proof -
  have ne: "c_state (heap wld self) \<noteq> st" and nn: "c_state (heap wld self) \<noteq> PyNone"
    using assms by (simp_all add: get_state_def)
  have a: "fst (CheckBox_set_state wld self st True) = Inr ()"
    using assms(2) by (rule CheckBox_set_state_ok)
  have b: "calls (snd (CheckBox_set_state wld self st True)) =
       calls wld @ map (\<lambda>(callback, user_data).
          \<lparr>callee = callback, emitter = self, new_state = st, user_arg = user_data,
           seen_state = get_state wld self\<rparr>) (c_signals (heap wld self))"
    using CheckBox_set_state_calls [OF ne assms(2), of True] nn by (simp add: get_state_def)
  have c: "get_state (snd (CheckBox_set_state wld self st True)) self = st"
    using CheckBox_set_state_ok(2) [OF assms(2)] by (simp add: get_state_def)
  obtain r w' where s: "set_state wld self st True = (r, w')"
    by (cases "set_state wld self st True")
  have d: "take (length (calls wld) + length (c_signals (heap wld self))) (calls w') =
       calls wld @ map (\<lambda>(callback, user_data).
          \<lparr>callee = callback, emitter = self, new_state = st, user_arg = user_data,
           seen_state = get_state wld self\<rparr>) (c_signals (heap wld self))"
    using set_state_calls_prefix [OF s] b by simp
  have e: "get_state w' self = st"
    using set_state_states [OF s] ne assms(2) by (auto simp: get_state_def)
  from a b c d e s show ?thesis by simp
qed

theorem change_emitted_before_commit_witness:
  "get_state cb0 0 \<noteq> PyBool True \<and> states (c_class (heap cb0 0)) (PyBool True) \<noteq> None \<and>
   get_state cb0 0 \<noteq> PyNone \<and>
   calls (snd (CheckBox_set_state cb0 0 (PyBool True) True)) =
     [\<lparr>callee = ''f'', emitter = 0, new_state = PyBool True, user_arg = PyStr ''u'',
       seen_state = PyBool False\<rparr>] \<and>
   get_state (snd (CheckBox_set_state cb0 0 (PyBool True) True)) 0 = PyBool True"
proof -
  have h1: "get_state cb0 0 \<noteq> PyBool True" by code_simp
  have h2: "states (c_class (heap cb0 0)) (PyBool True) \<noteq> None" by code_simp
  have h3: "get_state cb0 0 \<noteq> PyNone" by code_simp
  have v: "calls cb0 = []" "c_signals (heap cb0 0) = [(''f'', PyStr ''u'')]"
    "get_state cb0 0 = PyBool False" by code_simp+
  from change_emitted_before_commit [OF h1 h2 h3] h1 h2 h3 show ?thesis
    by (simp add: v)
qed

text \<open>
  Claim C10.  A Button without callback consumes space and \<open>'enter'\<close>: \<open>keypress\<close> returns
  \<open>None\<close> and calls nothing.  Every other key is returned as it came and nothing is called,
  with or without a callback.
\<close>

theorem Button_keypress_without_callback:
  "(b_on_press b = None \<longrightarrow> Button_keypress b sz '' '' = (None, []) \<and>
                              Button_keypress b sz ''enter'' = (None, [])) \<and>
   (key \<noteq> '' '' \<and> key \<noteq> ''enter'' \<longrightarrow> Button_keypress b sz key = (Some key, []))"
  by (simp add: Button_keypress_def)

theorem Button_keypress_without_callback_witness:
  "b_on_press (Button_init ''ok'' None PyNone) = None \<and>
   Button_keypress (Button_init ''ok'' None PyNone) 10 '' '' = (None, []) \<and>
   Button_keypress (Button_init ''ok'' None PyNone) 10 ''enter'' = (None, []) \<and>
   ''tab'' \<noteq> '' '' \<and> ''tab'' \<noteq> ''enter'' \<and>
   Button_keypress (Button_init ''ok'' (Some ''f'') PyNone) 10 ''tab'' = (Some ''tab'', [])"
  using Button_keypress_without_callback [of "Button_init ''ok'' None PyNone" 10 "''tab''"]
    Button_keypress_without_callback [of "Button_init ''ok'' (Some ''f'') PyNone" 10 "''tab''"]
  by (simp add: Button_init_def Button_set_label_def)

text \<open>
  Claim C6.  On a press of mouse button 1, \<open>Button.mouse_event\<close> calls \<open>on_press(self)\<close>
  once and returns \<open>True\<close>, but it never passes the user data: the button built as
  \<open>Button('ok', f, 'u')\<close> has \<open>f\<close> called with the button alone, where \<open>keypress\<close> on
  the same button calls \<open>f\<close> with the button and \<open>'u'\<close>.
\<close>

theorem Button_mouse_event_drops_user_data:
  "Button_mouse_event press_only (Button_init ''ok'' (Some ''f'') (PyStr ''u'')) 10
      ''mouse press'' 1 0 0 True =
     (True, [\<lparr>p_callee = ''f'', p_button = Button_init ''ok'' (Some ''f'') (PyStr ''u''),
              p_args = []\<rparr>]) \<and>
   Button_keypress (Button_init ''ok'' (Some ''f'') (PyStr ''u'')) 10 '' '' =
     (None, [\<lparr>p_callee = ''f'', p_button = Button_init ''ok'' (Some ''f'') (PyStr ''u''),
              p_args = [PyStr ''u'']\<rparr>])"
  by (simp add: Button_mouse_event_def Button_keypress_def Button_init_def
      Button_set_label_def press_only_def)

theorem Button_mouse_event_drops_user_data_witness:
  "1 = (1::int) \<and> press_only ''mouse press'' \<and>
   map p_args (snd (Button_mouse_event press_only
      (Button_init ''ok'' (Some ''f'') (PyStr ''u'')) 10 ''mouse press'' 1 0 0 True)) = [[]] \<and>
   map p_args (snd (Button_keypress
      (Button_init ''ok'' (Some ''f'') (PyStr ''u'')) 10 '' '')) = [[PyStr ''u'']]"
  using Button_mouse_event_drops_user_data by (simp add: press_only_def)

text \<open>
  Claim C4.  \<open>None\<close> is not a key of \<open>states\<close>, yet \<open>CheckBox('x', None)\<close> does not raise
  CheckBoxError: the call of \<open>set_state(None)\<close> in \<open>__init__\<close> finds \<open>_state == state\<close> and
  returns before the check.  The control is left with state \<open>None\<close> and without a
  composition, and a later \<open>set_state(None)\<close> returns normally too.
\<close>

theorem CheckBox_accepts_None_at_construction:
  "fst (new_CheckBox init_world ''x'' PyNone False None PyNone) = Inr 0 \<and>
   get_state (snd (new_CheckBox init_world ''x'' PyNone False None PyNone)) 0 = PyNone \<and>
   c_w (heap (snd (new_CheckBox init_world ''x'' PyNone False None PyNone)) 0) = None \<and>
   states CheckBoxC PyNone = None \<and>
   fst (set_state (snd (new_CheckBox init_world ''x'' PyNone False None PyNone)) 0 PyNone True)
     = Inr ()"
  by code_simp

text \<open>
  Claim C7.  Creating a RadioButton with the default state \<open>"first True"\<close> never raises, and
  the new button has state \<open>True\<close> if the group list is empty when it is created and
  \<open>False\<close> otherwise.  Three buttons created so in an empty group: the group holds the
  three in order, the first is \<open>True\<close>, the other two are \<open>False\<close>.
\<close>

theorem first_True_default:
  "fst (new_RadioButton wld g label (PyStr ''first True'') on_state_change user_data)
     = Inr (next_id wld) \<and>
   get_state (snd (new_RadioButton wld g label (PyStr ''first True'') on_state_change user_data))
       (next_id wld) = PyBool (groups wld g = []) \<and>
   groups three_radios 0 = [0, 1, 2] \<and>
   map (get_state three_radios) [0, 1, 2] = [PyBool True, PyBool False, PyBool False]"
proof -
  let ?i = "next_id wld"
  let ?st = "PyBool (groups wld g = [])"
  let ?w1 = "upd (alloc wld RadioButtonC) ?i (\<lambda>c. c\<lparr>c_group := Some g\<rparr>)"
  let ?p = "prepared ?w1 ?i label False on_state_change user_data"
  obtain r w' where s: "set_state ?p ?i ?st True = (r, w')"
    by (cases "set_state ?p ?i ?st True")
  have "fst (set_state ?p ?i ?st True) = Inr ()"
    by (rule set_state_ok) (simp_all add: states_None_iff)
  with s have r: "r = Inr ()" by simp
  have "c_state (heap w' ?i) = ?st"
    using set_state_states [OF s] by (auto simp: states_None_iff)
  then have a: "fst (new_RadioButton wld g label (PyStr ''first True'') on_state_change user_data)
     = Inr (next_id wld) \<and>
   get_state (snd (new_RadioButton wld g label (PyStr ''first True'') on_state_change user_data))
       (next_id wld) = PyBool (groups wld g = [])"
    using s r
    by (simp add: new_RadioButton_def RadioButton_init_def CheckBox_init_unfold get_state_def)
  have b: "groups three_radios 0 = [0, 1, 2]" by code_simp
  have c: "map (get_state three_radios) [0, 1, 2] = [PyBool True, PyBool False, PyBool False]"
    by code_simp
  from a b c show ?thesis by simp
qed

text \<open>
  Claim C8.  Creating a CheckBox calls no handler at all, whatever the initial state and
  whether or not \<open>on_state_change\<close> is given.  Creating a RadioButton only adds calls to the
  ones made before, and none of the added calls has the new button as emitter (they are the
  calls made for the members of the group that it switches off).
\<close>

theorem construction_emits_no_change:
  "calls (snd (new_CheckBox wld label st has_mixed on_state_change user_data)) = calls wld \<and>
   take (length (calls wld))
     (calls (snd (new_RadioButton wld g label st on_state_change user_data))) = calls wld \<and>
   filter (\<lambda>c. emitter c = next_id wld)
     (drop (length (calls wld))
        (calls (snd (new_RadioButton wld g label st on_state_change user_data)))) = []"
proof -
  let ?i = "next_id wld"
  have a: "calls (snd (new_CheckBox wld label st has_mixed on_state_change user_data)) = calls wld"
  proof -
    let ?p = "prepared (alloc wld CheckBoxC) ?i label has_mixed on_state_change user_data"
    obtain r w' where s: "CheckBox_set_state ?p ?i st True = (r, w')"
      by (cases "CheckBox_set_state ?p ?i st True")
    have "calls (snd (CheckBox_set_state ?p ?i st True)) = calls ?p"
      by (rule CheckBox_set_state_calls_None) simp
    with s show ?thesis
      by (simp add: new_CheckBox_unfold [OF s] split: sum.splits)
  qed
  let ?st = "if st = PyStr ''first True'' then PyBool (groups wld g = []) else st"
  let ?w1 = "upd (alloc wld RadioButtonC) ?i (\<lambda>c. c\<lparr>c_group := Some g\<rparr>)"
  let ?p = "prepared ?w1 ?i label False on_state_change user_data"
  obtain r w' where s: "set_state ?p ?i ?st True = (r, w')"
    by (cases "set_state ?p ?i ?st True")
  have "calls (snd (CheckBox_set_state ?p ?i ?st True)) = calls ?p"
    by (rule CheckBox_set_state_calls_None) simp
  with set_state_calls_split [OF s] obtain ex where
    ex: "calls w' = calls wld @ ex" "\<forall>c\<in>set ex. emitter c \<noteq> ?i \<and> new_state c = PyBool False"
    by auto
  have n: "calls (snd (new_RadioButton wld g label st on_state_change user_data)) = calls w'"
    by (simp add: new_RadioButton_unfold [OF s] split: sum.splits)
  have "filter (\<lambda>c. emitter c = ?i) ex = []"
    using ex(2) by (simp add: filter_empty_conv)
  with a n ex(1) show ?thesis by simp
qed

text \<open>
  Claim C5, amended.  On a CheckBox, \<open>toggle_state\<close> never raises and moves one step along
  the cycle: \<open>False\<close> to \<open>True\<close>; \<open>True\<close> to \<open>'mixed'\<close> with \<open>has_mixed\<close> and to \<open>False\<close>
  without; \<open>'mixed'\<close> to \<open>False\<close>.  Without \<open>has_mixed\<close>, two calls lead back to the state
  they started from, from every state but \<open>'mixed'\<close>; with \<open>has_mixed\<close>, three calls lead
  back to the state they started from.
\<close>

theorem toggle_state_cycle:
  assumes "c_class (heap wld self) = CheckBoxC"
  shows "fst (toggle_state wld self) = Inr () \<and>
    (get_state wld self = PyBool False \<longrightarrow>
       get_state (snd (toggle_state wld self)) self = PyBool True) \<and>
    (get_state wld self = PyBool True \<longrightarrow>
       get_state (snd (toggle_state wld self)) self =
         (if c_has_mixed (heap wld self) then PyStr ''mixed'' else PyBool False)) \<and>
    (get_state wld self = PyStr ''mixed'' \<longrightarrow>
       get_state (snd (toggle_state wld self)) self = PyBool False) \<and>
    (\<not> c_has_mixed (heap wld self) \<and> get_state wld self \<noteq> PyStr ''mixed'' \<longrightarrow>
       get_state (snd (toggle_state (snd (toggle_state wld self)) self)) self
         = get_state wld self) \<and>
    (c_has_mixed (heap wld self) \<longrightarrow>
       get_state (snd (toggle_state (snd (toggle_state (snd (toggle_state wld self)) self))
          self)) self = get_state wld self)"
proof -
  let ?w1 = "snd (toggle_state wld self)"
  let ?w2 = "snd (toggle_state ?w1 self)"
  note s0 = CheckBox_toggle_step [OF assms]
  from s0 have c1: "c_class (heap ?w1 self) = CheckBoxC" by simp
  note s1 = CheckBox_toggle_step [OF c1]
  from s1 have c2: "c_class (heap ?w2 self) = CheckBoxC" by simp
  note s2 = CheckBox_toggle_step [OF c2]
  show ?thesis
    using s0 s1 s2 by (cases "c_has_mixed (heap wld self)") auto
qed

theorem toggle_state_cycle_witness:
  "c_class (heap cb0 0) = CheckBoxC \<and> \<not> c_has_mixed (heap cb0 0) \<and>
   get_state cb0 0 = PyBool False \<and>
   get_state (snd (toggle_state cb0 0)) 0 = PyBool True \<and>
   get_state (snd (toggle_state (snd (toggle_state cb0 0)) 0)) 0 = PyBool False \<and>
   c_class (heap tri0 0) = CheckBoxC \<and> c_has_mixed (heap tri0 0) \<and>
   get_state tri0 0 = PyBool True \<and>
   get_state (snd (toggle_state tri0 0)) 0 = PyStr ''mixed'' \<and>
   get_state (snd (toggle_state (snd (toggle_state (snd (toggle_state tri0 0)) 0)) 0)) 0
     = PyBool True"
proof -
  have a: "c_class (heap cb0 0) = CheckBoxC" and b: "\<not> c_has_mixed (heap cb0 0)"
    and c: "get_state cb0 0 = PyBool False" by code_simp+
  have d: "c_class (heap tri0 0) = CheckBoxC" and e: "c_has_mixed (heap tri0 0)"
    and f: "get_state tri0 0 = PyBool True" by code_simp+
  have g: "get_state (snd (toggle_state cb0 0)) 0 = PyBool True"
    using toggle_state_cycle [OF a] c by simp
  from toggle_state_cycle [OF a] toggle_state_cycle [OF d] a b c d e f g
  show ?thesis by simp
qed

theorem toggle_twice_from_mixed_counterexample:
  "c_class (heap mixed0 0) = CheckBoxC \<and> \<not> c_has_mixed (heap mixed0 0) \<and>
   get_state mixed0 0 = PyStr ''mixed'' \<and>
   get_state (snd (toggle_state (snd (toggle_state mixed0 0)) 0)) 0 = PyBool True \<and>
   get_state (snd (toggle_state (snd (toggle_state mixed0 0)) 0)) 0 \<noteq> get_state mixed0 0"
  by code_simp

text \<open>
  Claim C1.  In the group of three radio buttons A, B, C, where A alone is \<open>True\<close>, the
  assignment \<open>B.state = True\<close> runs \<open>CheckBox.set_state\<close> on B: it returns normally, B is
  \<open>True\<close>, and A is still \<open>True\<close>, so two members of the group have state \<open>True\<close>.  The
  method call \<open>B.set_state(True)\<close> from the same store switches A off.
\<close>

theorem property_write_leaves_two_True:
  "c_class (heap three_radios 1) = RadioButtonC \<and>
   groups three_radios 0 = [0, 1, 2] \<and>
   map (get_state three_radios) [0, 1, 2] = [PyBool True, PyBool False, PyBool False] \<and>
   fst (assign_state three_radios 1 (PyBool True)) = Inr () \<and>
   groups (snd (assign_state three_radios 1 (PyBool True))) 0 = [0, 1, 2] \<and>
   map (get_state (snd (assign_state three_radios 1 (PyBool True)))) [0, 1, 2]
     = [PyBool True, PyBool True, PyBool False] \<and>
   length (filter (\<lambda>c. get_state (snd (assign_state three_radios 1 (PyBool True))) c
                          = PyBool True)
             (groups (snd (assign_state three_radios 1 (PyBool True))) 0)) = 2 \<and>
   map (get_state (snd (set_state three_radios 1 (PyBool True) True))) [0, 1, 2]
     = [PyBool False, PyBool True, PyBool False]"
  by code_simp

text \<open>
  Claim C2, amended.  A CheckBox created with an initial state that is a key of \<open>states\<close>
  (\<open>False\<close>, \<open>True\<close> or \<open>'mixed'\<close>), whatever \<open>has_mixed\<close> is, is created without error and
  with that state, and after every program its state is \<open>False\<close>, \<open>True\<close> or \<open>'mixed'\<close>, so
  never \<open>None\<close>.  When \<open>has_mixed\<close> is false, the initial state is not \<open>'mixed'\<close> and the
  program never calls \<open>set_state('mixed')\<close> on it, by the method or by an assignment to the
  property \<open>state\<close>, its state is \<open>False\<close> or \<open>True\<close>.
\<close>

theorem CheckBox_state_stays_defined:
  assumes "states CheckBoxC st \<noteq> None"
  shows "fst (new_CheckBox wld label st has_mixed on_state_change user_data) = Inr (next_id wld) \<and>
    get_state (snd (new_CheckBox wld label st has_mixed on_state_change user_data))
       (next_id wld) = st \<and>
    get_state (run cm imp
         (snd (new_CheckBox wld label st has_mixed on_state_change user_data)) xs)
       (next_id wld) \<in> {PyBool False, PyBool True, PyStr ''mixed''} \<and>
    (\<not> has_mixed \<and> st \<noteq> PyStr ''mixed'' \<and>
     (\<forall>d. SetState (next_id wld) (PyStr ''mixed'') d \<notin> set xs) \<and>
     AssignState (next_id wld) (PyStr ''mixed'') \<notin> set xs \<longrightarrow>
       get_state (run cm imp
           (snd (new_CheckBox wld label st has_mixed on_state_change user_data)) xs)
         (next_id wld) \<in> {PyBool False, PyBool True})"
proof -
  let ?w = "snd (new_CheckBox wld label st has_mixed on_state_change user_data)"
  let ?i = "next_id wld"
  note n = new_CheckBox_new [OF assms, of wld label has_mixed on_state_change user_data]
  have nid: "?i < next_id ?w" by (simp add: new_CheckBox_old)
  have "states CheckBoxC (c_state (heap (run cm imp ?w xs) ?i)) \<noteq> None"
    by (rule defined_run) (simp add: nid n assms)
  then have a: "get_state (run cm imp ?w xs) ?i \<in> {PyBool False, PyBool True, PyStr ''mixed''}"
    by (auto simp: states_None_iff get_state_def)
  have b: "get_state (run cm imp ?w xs) ?i \<in> {PyBool False, PyBool True}"
    if h: "\<not> has_mixed" "st \<noteq> PyStr ''mixed''"
      "\<forall>d. SetState ?i (PyStr ''mixed'') d \<notin> set xs"
      "AssignState ?i (PyStr ''mixed'') \<notin> set xs"
  proof -
    have "two_valued ?w ?i"
      using nid n assms h by (auto simp: two_valued_def states_None_iff)
    from two_valued_run [OF this h(3,4), of cm imp] show ?thesis
      by (auto simp: two_valued_def get_state_def)
  qed
  from n a b show ?thesis by (simp add: get_state_def)
qed

theorem CheckBox_state_stays_defined_witness:
  "states CheckBoxC (PyBool False) \<noteq> None \<and> PyBool False \<noteq> PyStr ''mixed'' \<and>
   fst (new_CheckBox init_world ''x'' (PyBool False) False None PyNone) = Inr 0 \<and>
   get_state (run activate_keys press_only
       (snd (new_CheckBox init_world ''x'' (PyBool False) False None PyNone)) box_ops) 0
     \<in> {PyBool False, PyBool True}"
proof -
  have h: "states CheckBoxC (PyBool False) \<noteq> None" by (simp add: states_None_iff)
  have n: "next_id init_world = 0" by (simp add: init_world_def)
  have x: "\<forall>d. SetState 0 (PyStr ''mixed'') d \<notin> set box_ops"
    "AssignState 0 (PyStr ''mixed'') \<notin> set box_ops" by (simp_all add: box_ops_def)
  from CheckBox_state_stays_defined [OF h, where wld = init_world and label = "''x''"
      and has_mixed = False and on_state_change = None and user_data = PyNone
      and cm = activate_keys and imp = press_only and xs = box_ops] h n x
  show ?thesis by simp
qed

theorem mixed_without_has_mixed_counterexample:
  "fst (new_CheckBox init_world ''x'' (PyStr ''mixed'') False None PyNone) = Inr 0 \<and>
   \<not> c_has_mixed (heap mixed0 0) \<and>
   get_state mixed0 0 = PyStr ''mixed'' \<and>
   get_state mixed0 0 \<noteq> PyBool False \<and> get_state mixed0 0 \<noteq> PyBool True \<and>
   \<not> c_has_mixed (heap cb0 0) \<and>
   fst (set_state cb0 0 (PyStr ''mixed'') True) = Inr () \<and>
   get_state (snd (set_state cb0 0 (PyStr ''mixed'') True)) 0 = PyStr ''mixed''"
  by code_simp

end
